theory Spec2Isabelle
  imports Main "HOL-Library.AList"
begin

section \<open>Python values, dictionaries and exceptions\<close>

text \<open>
  The values that travel through the credential dictionaries and the JSON bodies of the
  token endpoint. JSON numbers are integers here; no modelled operation looks inside a
  number other than to test its truth value.
\<close>

datatype pyval =
    PNone
  | PBool bool
  | PInt int
  | PStr string
  | PList "pyval list"
  | PDict "(string \<times> pyval) list"

text \<open>Python's truth value of an object: what \<^verbatim>\<open>a or b\<close> tests on \<^verbatim>\<open>a\<close>.\<close>

fun truthy :: "pyval \<Rightarrow> bool" where
  "truthy PNone = False"
| "truthy (PBool b) = b"
| "truthy (PInt i) = (i \<noteq> 0)"
| "truthy (PStr s) = (s \<noteq> [])"
| "truthy (PList xs) = (xs \<noteq> [])"
| "truthy (PDict kvs) = (kvs \<noteq> [])"

definition py_or :: "pyval \<Rightarrow> pyval \<Rightarrow> pyval" where
  "py_or a b = (if truthy a then a else b)"

text \<open>
  A \<^verbatim>\<open>dict\<close> with string keys is an association list in insertion order.
  \<^verbatim>\<open>d[k] = v\<close> is \<^const>\<open>AList.update\<close> (overwrite in place or append),
  \<^verbatim>\<open>d[k]\<close> is \<^const>\<open>map_of\<close> with \<^verbatim>\<open>KeyError\<close> on \<open>None\<close>, and
  \<^verbatim>\<open>d.get(k)\<close> is \<open>dict_get\<close>.
\<close>

type_synonym pydict = "(string \<times> pyval) list"

definition dict_get :: "pydict \<Rightarrow> string \<Rightarrow> pyval" where
  "dict_get d k = (case map_of d k of None \<Rightarrow> PNone | Some v \<Rightarrow> v)"

datatype error =
    KeyError "string list"
  | TypeError_missing string "string list"
  | TypeError_extra string nat
  | AttributeError string
  | ValueError string
  | HTTPError_status nat
  | HTTPError_error pyval
  | JSONDecodeError
  | NotFound string

text \<open>
  \<open>KeyError\<close> carries the missing key or labels. The two \<^verbatim>\<open>TypeError\<close>s are
  those of a call with the wrong number of positional arguments: \<open>TypeError_missing f ps\<close>
  for a call of \<open>f\<close> that leaves the required parameters \<open>ps\<close> unbound, and
  \<open>TypeError_extra f n\<close> for a call of \<open>f\<close> with \<open>n\<close> positional arguments, more than
  it takes (the wording of the message depends on the interpreter; what it reports is
  this). \<open>HTTPError_status\<close> is what
  \<^verbatim>\<open>res.raise_for_status()\<close> raises; \<open>HTTPError_error e\<close> is
  \<^verbatim>\<open>requests.HTTPError(f"Error: {token['error']}")\<close>, carrying the value of the
  body's \<^verbatim>\<open>error\<close> field. \<open>NotFound\<close> is the backend's answer for a secret or a
  table that does not exist.
\<close>

fun raises_TypeError :: "error + 'a \<Rightarrow> bool" where
  "raises_TypeError (Inl (TypeError_missing f ps)) = True"
| "raises_TypeError (Inl (TypeError_extra f n)) = True"
| "raises_TypeError r = False"

section \<open>auth.py: the token exchange\<close>

text \<open>
  The world outside the process: the versions of the secret (the last one is
  \<^verbatim>\<open>versions/latest\<close>) and the POST requests sent to the token endpoint.
\<close>

datatype http_post = Post (post_url: string) (post_auth: "pyval \<times> pyval") (post_data: pydict)

record world =
  secret_versions :: "pydict list"
  posts :: "http_post list"

text \<open>
  The endpoint's answer to a POST: the status code and the body, \<open>None\<close> when the body
  is not JSON and \<open>Some token\<close> when it is a JSON object. Transport failures and bodies
  that are JSON but not an object are outside the model.
\<close>

record response =
  status_code :: nat
  json_body :: "pydict option"

definition raise_for_status :: "response \<Rightarrow> error + unit" where
  "raise_for_status res =
     (if 400 \<le> status_code res \<and> status_code res < 600
      then Inl (HTTPError_status (status_code res)) else Inr ())"

text \<open>secret.py\<close>

definition read_token :: "world \<Rightarrow> error + pydict" where
  "read_token w =
     (case secret_versions w of
        [] \<Rightarrow> Inl (NotFound ''reddit_secret'')
      | v # vs \<Rightarrow> Inr (last (v # vs)))"

definition save_token :: "pydict \<Rightarrow> world \<Rightarrow> world" where
  "save_token config w = w\<lparr>secret_versions := secret_versions w @ [config]\<rparr>"

definition token_url :: string where
  "token_url = ''https://www.reddit.com/api/v1/access_token''"

text \<open>
  \<^verbatim>\<open>RedditAuth.make_request(self, config, data)\<close>. \<open>res\<close> is what the endpoint
  answers to the POST. The result is the raised exception or the returned (mutated)
  \<^verbatim>\<open>config\<close>, with the world after the call.
\<close>

definition make_request :: "response \<Rightarrow> pydict \<Rightarrow> pydict \<Rightarrow> world \<Rightarrow> (error + pydict) \<times> world" where
  "make_request res config data w =
     (case map_of config ''client_id'' of
        None \<Rightarrow> (Inl (KeyError [''client_id'']), w)
      | Some client_id \<Rightarrow>
     (case map_of config ''client_secret'' of
        None \<Rightarrow> (Inl (KeyError [''client_secret'']), w)
      | Some client_secret \<Rightarrow>
        let w1 = w\<lparr>posts := posts w @ [Post token_url (client_id, client_secret) data]\<rparr> in
        (case raise_for_status res of
           Inl e \<Rightarrow> (Inl e, w1)
         | Inr u \<Rightarrow>
        (case json_body res of
           None \<Rightarrow> (Inl JSONDecodeError, w1)
         | Some token \<Rightarrow>
        (case map_of token ''error'' of
           Some e \<Rightarrow> (Inl (HTTPError_error e), w1)
         | None \<Rightarrow>
           let config1 = AList.update ''refresh_token''
                 (py_or (dict_get token ''refresh_token'') (dict_get data ''refresh_token'')) config;
               config2 = AList.update ''access_token''
                 (py_or (dict_get token ''access_token'') (dict_get data ''access_token'')) config1
           in (Inr config2, save_token config2 w1))))))"

text \<open>
  A call \<^verbatim>\<open>self.make_request(*args)\<close>: Python binds the positional arguments to
  \<^verbatim>\<open>config\<close> and \<^verbatim>\<open>data\<close> before the body runs, and raises
  \<^verbatim>\<open>TypeError\<close> when their number is not two (the count it reports includes
  \<^verbatim>\<open>self\<close>).
\<close>

fun call_make_request :: "response \<Rightarrow> pydict list \<Rightarrow> world \<Rightarrow> (error + pydict) \<times> world" where
  "call_make_request res [config, data] w = make_request res config data w"
| "call_make_request res [] w =
     (Inl (TypeError_missing ''make_request'' [''config'', ''data'']), w)"
| "call_make_request res [config] w =
     (Inl (TypeError_missing ''make_request'' [''data'']), w)"
| "call_make_request res args w =
     (Inl (TypeError_extra ''make_request'' (Suc (length args))), w)"

text \<open>\<^verbatim>\<open>RedditAuth.get_token(self, code)\<close>, with \<^verbatim>\<open>self.config\<close> as \<open>self_config\<close>.\<close>

definition get_token :: "response \<Rightarrow> pydict \<Rightarrow> string \<Rightarrow> world \<Rightarrow> (error + pydict) \<times> world" where
  "get_token res self_config code w =
     (case map_of self_config ''redirect_url'' of
        None \<Rightarrow> (Inl (KeyError [''redirect_url'']), w)
      | Some redirect_url \<Rightarrow>
        let data = [(''grant_type'', PStr ''authorization_code''),
                    (''code'', PStr code),
                    (''redirect_uri'', redirect_url)]
        in call_make_request res [data] w)"

text \<open>
  \<^verbatim>\<open>RedditAuth.refresh_token(self)\<close>; \<^verbatim>\<open>__init__\<close> stores its result in
  \<^verbatim>\<open>self.config\<close>.
\<close>

definition refresh_token :: "response \<Rightarrow> world \<Rightarrow> (error + pydict) \<times> world" where
  "refresh_token res w =
     (case read_token w of
        Inl e \<Rightarrow> (Inl e, w)
      | Inr config \<Rightarrow>
     (case map_of config ''refresh_token'' of
        None \<Rightarrow> (Inl (KeyError [''refresh_token'']), w)
      | Some refresh_token \<Rightarrow>
        let data = [(''grant_type'', PStr ''refresh_token''),
                    (''refresh_token'', refresh_token)]
        in call_make_request res [config, data] w))"

section \<open>Strings: join, splitlines, textwrap.indent\<close>

definition NL :: string where
  "NL = [CHR 0x0A]"

text \<open>\<^verbatim>\<open>sep.join(xs)\<close>\<close>

fun str_join :: "string \<Rightarrow> string list \<Rightarrow> string" where
  "str_join sep [] = []"
| "str_join sep [x] = x"
| "str_join sep (x # y # ys) = x @ sep @ str_join sep (y # ys)"

text \<open>
  \<^verbatim>\<open>text.splitlines(True)\<close>, splitting after each line feed and keeping it. (Python
  also splits at carriage returns and a few other separators; none occurs in the texts
  built here.)
\<close>

fun splitlines_keepends :: "string \<Rightarrow> string list" where
  "splitlines_keepends [] = []"
| "splitlines_keepends (c # cs) =
     (if c = CHR 0x0A then [c] # splitlines_keepends cs
      else (case splitlines_keepends cs of
              [] \<Rightarrow> [[c]]
            | l # ls \<Rightarrow> (c # l) # ls))"

definition isspace :: "char \<Rightarrow> bool" where
  "isspace c = (c \<in> set [CHR '' '', CHR 0x09, CHR 0x0A, CHR 0x0B, CHR 0x0C, CHR 0x0D,
                           CHR 0x1C, CHR 0x1D, CHR 0x1E, CHR 0x1F])"

text \<open>
  \<^verbatim>\<open>textwrap.indent(text, prefix)\<close>: the prefix goes in front of every line that
  does not consist solely of whitespace.
\<close>

definition textwrap_indent :: "string \<Rightarrow> string \<Rightarrow> string" where
  "textwrap_indent text prefix =
     concat (map (\<lambda>line. if list_ex (\<lambda>c. \<not> isspace c) line then prefix @ line else line)
                 (splitlines_keepends text))"

section \<open>database.py: schema conversion\<close>

text \<open>
  \<^verbatim>\<open>bigquery.SchemaField(name, field_type, mode="NULLABLE", fields=())\<close>
\<close>

datatype schema_field =
  SchemaField (sf_name: string) (sf_field_type: string) (sf_mode: string) (sf_fields: "schema_field list")

definition conversion_field :: "string \<Rightarrow> schema_field" where
  "conversion_field name =
     (let fields = [SchemaField ''attribution_window_day'' ''INTEGER'' ''NULLABLE'' [],
                    SchemaField ''attribution_window_month'' ''INTEGER'' ''NULLABLE'' [],
                    SchemaField ''attribution_window_week'' ''INTEGER'' ''NULLABLE'' []];
          click = SchemaField ''click_through_conversions'' ''RECORD'' ''NULLABLE'' fields;
          view = SchemaField ''view_through_conversions'' ''RECORD'' ''NULLABLE'' fields
      in SchemaField name ''RECORD'' ''NULLABLE'' [click, view])"

definition type_dict :: "(string \<times> string) list" where
  "type_dict = [(''int'', ''INTEGER''), (''float'', ''FLOAT''),
                (''timestamp'', ''TIMESTAMP''), (''str'', ''STRING'')]"

text \<open>
  The head of the loop body: \<^verbatim>\<open>dtype.endswith("!")\<close> strips the mark and selects the
  mode.
\<close>

definition split_mode :: "string \<Rightarrow> string \<times> string" where
  "split_mode dtype =
     (if dtype \<noteq> [] \<and> last dtype = CHR ''!'' then (butlast dtype, ''REQUIRED'')
      else (dtype, ''NULLABLE''))"

text \<open>
  The rest of the loop body for one item of \<^verbatim>\<open>schema.items()\<close>: the field it
  appends to \<^verbatim>\<open>fields\<close>, or the exception it raises.
\<close>

definition convert_item :: "string \<Rightarrow> string \<Rightarrow> error + schema_field" where
  "convert_item name dtype =
     (case split_mode dtype of (dtype', mode) \<Rightarrow>
       (case map_of type_dict dtype' of
          Some t \<Rightarrow> Inr (SchemaField name t mode [])
        | None \<Rightarrow>
            if dtype' = ''conversion'' then Inr (conversion_field name)
            else Inl (ValueError (''Field type '' @ dtype' @ '' is not supported.''))))"

text \<open>
  \<^verbatim>\<open>schema_to_bq\<close>: the loop, with the list \<^verbatim>\<open>fields\<close> as the accumulator
  \<open>fields0\<close>.
\<close>

fun schema_to_bq_loop :: "(string \<times> string) list \<Rightarrow> schema_field list \<Rightarrow> error + schema_field list" where
  "schema_to_bq_loop [] fields0 = Inr fields0"
| "schema_to_bq_loop ((name, dtype) # rest) fields0 =
     (case convert_item name dtype of
        Inl e \<Rightarrow> Inl e
      | Inr f \<Rightarrow> schema_to_bq_loop rest (fields0 @ [f]))"

definition schema_to_bq :: "(string \<times> string) list \<Rightarrow> error + schema_field list" where
  "schema_to_bq schema = schema_to_bq_loop schema []"

definition REDDITADS_SCHEMA :: "(string \<times> string) list" where
  "REDDITADS_SCHEMA =
    [(''spend'', ''int''),
     (''video_watched_50_percent'', ''int''),
     (''video_watched_75_percent'', ''int''),
     (''ecpm'', ''float''),
     (''video_viewable_impressions'', ''int''),
     (''date'', ''timestamp''),
     (''ctr'', ''float''),
     (''impressions'', ''int''),
     (''video_watched_3_seconds'', ''int''),
     (''cpc'', ''float''),
     (''video_watched_100_percent'', ''int''),
     (''video_started'', ''int''),
     (''video_plays_with_sound'', ''int''),
     (''ad_id'', ''str''),
     (''clicks'', ''int''),
     (''video_fully_viewable_impressions'', ''int''),
     (''video_plays_expanded'', ''int''),
     (''video_watched_95_percent'', ''int''),
     (''video_watched_10_seconds'', ''int''),
     (''video_watched_25_percent'', ''int''),
     (''page_visit'', ''conversion''),
     (''view_content'', ''conversion''),
     (''search'', ''conversion''),
     (''add_to_cart'', ''conversion''),
     (''add_to_wishlist'', ''conversion''),
     (''purchase'', ''conversion''),
     (''lead'', ''conversion''),
     (''sign_up'', ''conversion''),
     (''custom'', ''conversion''),
     (''ad_group_id'', ''str''),
     (''ad_name'', ''str''),
     (''account_id'', ''str''),
     (''campaign_id'', ''str''),
     (''ad_group_name'', ''str''),
     (''campaign_name'', ''str'')]"

section \<open>pandas: the data frame operations the code uses\<close>

text \<open>
  A data frame is stored by columns, in column order, under unique labels; a cell is
  \<open>None\<close> when it is missing (\<^verbatim>\<open>NaN\<close> or \<^verbatim>\<open>None\<close>) and \<open>Some v\<close>
  otherwise. \<open>n_rows\<close> is the length of the index.
\<close>

record 'v dataframe =
  n_rows :: nat
  columns :: "(string \<times> 'v option list) list"

text \<open>
  \<^verbatim>\<open>pd.DataFrame(report)\<close> for a list of row dictionaries: the columns are the keys
  in order of first appearance, and a row without a key has a missing cell there.
\<close>

definition column_labels :: "(string \<times> 'v option) list list \<Rightarrow> string list" where
  "column_labels report = rev (remdups (rev (concat (map (map fst) report))))"

definition DataFrame :: "(string \<times> 'v option) list list \<Rightarrow> 'v dataframe" where
  "DataFrame report =
     \<lparr>n_rows = length report,
      columns = map (\<lambda>c. (c, map (\<lambda>row. case map_of row c of None \<Rightarrow> None | Some v \<Rightarrow> v) report))
                    (column_labels report)\<rparr>"

text \<open>\<^verbatim>\<open>df.drop(columns=labels)\<close>, with the default \<^verbatim>\<open>errors="raise"\<close>.\<close>

definition drop_columns :: "string list \<Rightarrow> 'v dataframe \<Rightarrow> error + 'v dataframe" where
  "drop_columns labels df =
     (case filter (\<lambda>l. l \<notin> set (map fst (columns df))) labels of
        [] \<Rightarrow> Inr (df\<lparr>columns := filter (\<lambda>col. fst col \<notin> set labels) (columns df)\<rparr>)
      | m # ms \<Rightarrow> Inl (KeyError (m # ms)))"

text \<open>\<^verbatim>\<open>df.dropna(axis="columns", how="all")\<close>: a column stays when it has a value.\<close>

definition dropna_columns_all :: "'v dataframe \<Rightarrow> 'v dataframe" where
  "dropna_columns_all df =
     df\<lparr>columns := filter (\<lambda>col. list_ex (\<lambda>v. v \<noteq> None) (snd col)) (columns df)\<rparr>"

text \<open>\<^verbatim>\<open>df[labels]\<close> for a list of labels: the columns in the order of the labels.\<close>

definition select_columns :: "string list \<Rightarrow> 'v dataframe \<Rightarrow> error + 'v dataframe" where
  "select_columns labels df =
     (case filter (\<lambda>l. l \<notin> set (map fst (columns df))) labels of
        [] \<Rightarrow> Inr (df\<lparr>columns := map (\<lambda>l. (l, the (map_of (columns df) l))) labels\<rparr>)
      | m # ms \<Rightarrow> Inl (KeyError (m # ms)))"

section \<open>reddit.py: transform\_report\<close>

text \<open>
  \<^verbatim>\<open>transform_report(report)\<close>. \<^verbatim>\<open>pd.to_datetime\<close> is the parameter
  \<open>to_datetime\<close>: it parses a column or raises.
\<close>

definition transform_report ::
  "('v option list \<Rightarrow> error + 'v option list) \<Rightarrow> (string \<times> 'v option) list list \<Rightarrow> error + 'v dataframe" where
  "transform_report to_datetime report =
     (case drop_columns [''ad_group_id'', ''campaign_id'', ''account_id''] (DataFrame report) of
        Inl e \<Rightarrow> Inl e
      | Inr dropped \<Rightarrow>
        let df = dropna_columns_all dropped in
        (case map_of (columns df) ''date'' of
           None \<Rightarrow> Inl (AttributeError ''date'')
         | Some date \<Rightarrow>
           (case to_datetime date of
              Inl e \<Rightarrow> Inl e
            | Inr parsed \<Rightarrow> Inr (df\<lparr>columns := AList.update ''date'' parsed (columns df)\<rparr>))))"

section \<open>database.py: the warehouse client\<close>

text \<open>
  static.py: \<^verbatim>\<open>class Reddit(str, Enum)\<close>, its members with their names and values.
\<close>

datatype Reddit =
    PROJECT_ID
  | SECRET_STRING
  | DATASET
  | TABLE
  | TMP_TABLE
  | BQ_DATE_FORMAT
  | DEFAULT_START_DATE

fun member_name :: "Reddit \<Rightarrow> string" where
  "member_name PROJECT_ID = ''PROJECT_ID''"
| "member_name SECRET_STRING = ''SECRET_STRING''"
| "member_name DATASET = ''DATASET''"
| "member_name TABLE = ''TABLE''"
| "member_name TMP_TABLE = ''TMP_TABLE''"
| "member_name BQ_DATE_FORMAT = ''BQ_DATE_FORMAT''"
| "member_name DEFAULT_START_DATE = ''DEFAULT_START_DATE''"

fun member_value :: "Reddit \<Rightarrow> string" where
  "member_value PROJECT_ID = ''702739857141''"
| "member_value SECRET_STRING = ''reddit_secret''"
| "member_value DATASET = ''reddit''"
| "member_value TABLE = ''redditads''"
| "member_value TMP_TABLE = ''redditads_tmp''"
| "member_value BQ_DATE_FORMAT = ''%Y-%m-%dT00:00:00Z''"
| "member_value DEFAULT_START_DATE = ''2021-03-01''"

text \<open>
  What \<^verbatim>\<open>f"{Reddit.DATASET}"\<close> puts into a string depends on the interpreter: before
  Python 3.11 the format of a member of an enum with a mixed-in \<^verbatim>\<open>str\<close> is its value,
  from 3.11 on it is the class and member name. The interpreter is a parameter of the
  operations that build table names.
\<close>

datatype interpreter = Before_3_11 | From_3_11

fun format_member :: "interpreter \<Rightarrow> Reddit \<Rightarrow> string" where
  "format_member Before_3_11 m = member_value m"
| "format_member From_3_11 m = ''Reddit.'' @ member_name m"

record 'v table =
  table_schema :: "schema_field list"
  table_data :: "'v dataframe"

record load_job_config =
  job_schema :: "schema_field list"
  job_source_format :: string
  job_write_disposition :: string

datatype 'v bq_call =
    CreateTable string "schema_field list"
  | LoadTable string load_job_config "'v dataframe"
  | Query string
  | DeleteTable string

text \<open>
  \<^verbatim>\<open>BigQueryDatabase\<close>: its project id, and behind its client the tables of the
  warehouse and the calls sent to it, in order.
\<close>

record 'v client =
  project_id :: string
  tables :: "(string \<times> 'v table) list"
  calls :: "'v bq_call list"

text \<open>
  How a job ends: \<^verbatim>\<open>job.result()\<close> returns, raises \<^verbatim>\<open>BadRequest\<close> (with
  \<^verbatim>\<open>job.errors\<close>), or raises something else. The warehouse decides it: the load job
  from the table name, the configuration and the frame, the query job from the statement
  and the tables, which it may change. The client library decides which table names
  \<^verbatim>\<open>bigquery.Table(table_id, ...)\<close> takes: \<open>rejected_table_id wh table_id\<close> is
  \<open>Some msg\<close> when the constructor raises \<^verbatim>\<open>ValueError(msg)\<close> for the name (it
  wants the form \<^verbatim>\<open>project.dataset.table\<close>) and \<open>None\<close> when it takes it. A
  name that the load itself does not take is a load that ends in \<open>Failed\<close>.
\<close>

datatype job_outcome = Done | BadRequest string | Failed error

record 'v warehouse =
  rejected_table_id :: "string \<Rightarrow> string option"
  load_job :: "string \<Rightarrow> load_job_config \<Rightarrow> 'v dataframe \<Rightarrow> job_outcome"
  query_job :: "string \<Rightarrow> (string \<times> 'v table) list \<Rightarrow> job_outcome \<times> (string \<times> 'v table) list"

text \<open>\<^verbatim>\<open>client.create_table(table, exists_ok=True)\<close>\<close>

definition create_table :: "string \<Rightarrow> schema_field list \<Rightarrow> 'v client \<Rightarrow> 'v client" where
  "create_table table_id sch c =
     (let c1 = c\<lparr>calls := calls c @ [CreateTable table_id sch]\<rparr> in
      case map_of (tables c) table_id of
        Some t \<Rightarrow> c1
      | None \<Rightarrow>
          c1\<lparr>tables := tables c @
               [(table_id, \<lparr>table_schema = sch,
                            table_data = \<lparr>n_rows = 0, columns = map (\<lambda>f. (sf_name f, [])) sch\<rparr>\<rparr>)]\<rparr>)"

text \<open>\<^verbatim>\<open>client.delete_table(table_id)\<close>, with the default \<^verbatim>\<open>not_found_ok=False\<close>.\<close>

definition delete_table :: "string \<Rightarrow> 'v client \<Rightarrow> (error + unit) \<times> 'v client" where
  "delete_table table_id c =
     (let c1 = c\<lparr>calls := calls c @ [DeleteTable table_id]\<rparr> in
      case map_of (tables c) table_id of
        None \<Rightarrow> (Inl (NotFound table_id), c1)
      | Some t \<Rightarrow> (Inr (), c1\<lparr>tables := AList.delete table_id (tables c)\<rparr>))"

text \<open>
  What a finished load job leaves in the table: with \<^verbatim>\<open>WRITE_TRUNCATE\<close> the frame
  replaces schema and data; otherwise (\<^verbatim>\<open>WRITE_APPEND\<close>) its rows follow the old ones.
\<close>

definition append_rows :: "'v dataframe \<Rightarrow> 'v dataframe \<Rightarrow> 'v dataframe" where
  "append_rows old new =
     \<lparr>n_rows = n_rows old + n_rows new,
      columns = map (\<lambda>col. (fst col, snd col @
                      (case map_of (columns new) (fst col) of
                         None \<Rightarrow> replicate (n_rows new) None
                       | Some vs \<Rightarrow> vs)))
                    (columns old)\<rparr>"

definition apply_load :: "load_job_config \<Rightarrow> 'v dataframe \<Rightarrow> 'v table option \<Rightarrow> 'v table" where
  "apply_load cfg df old =
     (case old of
        None \<Rightarrow> \<lparr>table_schema = job_schema cfg, table_data = df\<rparr>
      | Some t \<Rightarrow>
          if job_write_disposition cfg = ''WRITE_TRUNCATE''
          then \<lparr>table_schema = job_schema cfg, table_data = df\<rparr>
          else t\<lparr>table_data := append_rows (table_data t) df\<rparr>)"

text \<open>
  \<^verbatim>\<open>BigQueryDatabase.ensure_table(self, schema, table_id)\<close>: the schema is converted
  first, then \<^verbatim>\<open>bigquery.Table\<close> is constructed, then the table is created.
\<close>

definition ensure_table ::
  "'v warehouse \<Rightarrow> (string \<times> string) list \<Rightarrow> string \<Rightarrow> 'v client \<Rightarrow> (error + unit) \<times> 'v client" where
  "ensure_table wh schema table_id c =
     (case schema_to_bq schema of
        Inl e \<Rightarrow> (Inl e, c)
      | Inr sch \<Rightarrow>
        (case rejected_table_id wh table_id of
           Some msg \<Rightarrow> (Inl (ValueError msg), c)
         | None \<Rightarrow> (Inr (), create_table table_id sch c)))"

text \<open>\<^verbatim>\<open>BigQueryDatabase.save_new_table(self, table, table_id)\<close>\<close>

definition save_new_table ::
  "'v warehouse \<Rightarrow> 'v dataframe \<Rightarrow> string \<Rightarrow> 'v client \<Rightarrow> (error + string) \<times> 'v client" where
  "save_new_table wh table table_id c =
     (case schema_to_bq REDDITADS_SCHEMA of
        Inl e \<Rightarrow> (Inl e, c)
      | Inr sch \<Rightarrow>
        let job_config = \<lparr>job_schema = sch, job_source_format = ''PARQUET'',
                          job_write_disposition = ''WRITE_TRUNCATE''\<rparr> in
        (case select_columns (map fst REDDITADS_SCHEMA) table of
           Inl e \<Rightarrow> (Inl e, c)
         | Inr table' \<Rightarrow>
           let c1 = c\<lparr>calls := calls c @ [LoadTable table_id job_config table']\<rparr> in
           (case load_job wh table_id job_config table' of
              Done \<Rightarrow>
                (Inr table_id,
                 c1\<lparr>tables := AList.update table_id
                       (apply_load job_config table' (map_of (tables c) table_id)) (tables c)\<rparr>)
            | BadRequest errs \<Rightarrow> (Inl (ValueError errs), c1)
            | Failed e \<Rightarrow> (Inl e, c1))))"

section \<open>database.py: the merge statement\<close>

text \<open>
  \<^verbatim>\<open>merge_tables\<close> keeps its column names in Python sets. A set is iterated in an
  order the interpreter chooses; \<open>order xs\<close> is the order in which the set built from
  the elements \<open>xs\<close> is iterated. All that is known of it is \<open>iteration_order\<close>:
  every element comes once.
\<close>

definition iteration_order :: "(string list \<Rightarrow> string list) \<Rightarrow> bool" where
  "iteration_order order = (\<forall>xs. set (order xs) = set xs \<and> distinct (order xs))"

definition insert_cols_list :: "(string list \<Rightarrow> string list) \<Rightarrow> string list" where
  "insert_cols_list order = order (map fst REDDITADS_SCHEMA)"

definition merge_keys :: "(string list \<Rightarrow> string list) \<Rightarrow> string list" where
  "merge_keys order = order [''date'', ''ad_id'', ''ad_group_id'', ''account_id'', ''campaign_id'']"

definition update_cols_list :: "(string list \<Rightarrow> string list) \<Rightarrow> string list" where
  "update_cols_list order =
     order (filter (\<lambda>c. c \<notin> set (merge_keys order)) (insert_cols_list order))"

definition update_cols :: "(string list \<Rightarrow> string list) \<Rightarrow> string" where
  "update_cols order = str_join ('','' @ NL) (map (\<lambda>c. c @ '' = tmp.'' @ c) (update_cols_list order))"

definition insert_cols :: "(string list \<Rightarrow> string list) \<Rightarrow> string" where
  "insert_cols order = str_join ('','' @ NL) (insert_cols_list order)"

definition value_cols :: "(string list \<Rightarrow> string list) \<Rightarrow> string" where
  "value_cols order = str_join ('','' @ NL) (map (\<lambda>c. ''tmp.'' @ c) (insert_cols_list order))"

definition join_cols :: "(string list \<Rightarrow> string list) \<Rightarrow> string" where
  "join_cols order =
     str_join (NL @ ''and '') (map (\<lambda>c. ''old.'' @ c @ '' = tmp.'' @ c) (merge_keys order))"

definition indent :: "string \<Rightarrow> string" where
  "indent text = textwrap_indent text (replicate 8 (CHR '' ''))"

definition merge_query :: "(string list \<Rightarrow> string list) \<Rightarrow> string \<Rightarrow> string \<Rightarrow> string" where
  "merge_query order table_id tmp_table_id =
     NL @ ''        merge '' @ table_id @ '' as old'' @
     NL @ ''        using '' @ tmp_table_id @ '' as tmp'' @
     NL @ ''            on '' @ indent (join_cols order) @
     NL @ ''        when matched then'' @
     NL @ ''            update set'' @
     NL @ ''                '' @ indent (update_cols order) @
     NL @ ''        when not matched then'' @
     NL @ ''            insert ('' @
     NL @ ''                '' @ indent (insert_cols order) @
     NL @ ''            )'' @
     NL @ ''            values ('' @
     NL @ ''                '' @ indent (value_cols order) @
     NL @ ''            )'' @
     NL @ ''        ''"

text \<open>\<^verbatim>\<open>BigQueryDatabase.merge_tables(self, tmp_table_id)\<close>\<close>

definition merge_tables ::
  "interpreter \<Rightarrow> (string list \<Rightarrow> string list) \<Rightarrow> 'v warehouse \<Rightarrow> string \<Rightarrow> 'v client \<Rightarrow>
     (error + unit) \<times> 'v client" where
  "merge_tables py order wh tmp_table_id c =
     (let table_id = project_id c @ ''.'' @ format_member py DATASET @ ''.'' @ format_member py TABLE in
      case ensure_table wh REDDITADS_SCHEMA table_id c of
        (Inl e, c1) \<Rightarrow> (Inl e, c1)
      | (Inr u, c1) \<Rightarrow>
        let query = merge_query order table_id tmp_table_id;
            c2 = c1\<lparr>calls := calls c1 @ [Query query]\<rparr>
        in (case query_job wh query (tables c2) of
              (Done, ts) \<Rightarrow> (Inr (), c2\<lparr>tables := ts\<rparr>)
            | (BadRequest errs, ts) \<Rightarrow> (Inl (ValueError errs), c2\<lparr>tables := ts\<rparr>)
            | (Failed e, ts) \<Rightarrow> (Inl e, c2\<lparr>tables := ts\<rparr>)))"

text \<open>
  \<^verbatim>\<open>BigQueryDatabase.save_table(self, table)\<close>: the \<^verbatim>\<open>finally\<close> clause runs
  \<^verbatim>\<open>delete_table\<close> after \<^verbatim>\<open>merge_tables\<close> whatever it did; an exception of
  the clause itself replaces the pending one.
\<close>

definition save_table ::
  "interpreter \<Rightarrow> (string list \<Rightarrow> string list) \<Rightarrow> 'v warehouse \<Rightarrow> 'v dataframe \<Rightarrow> 'v client \<Rightarrow>
     (error + unit) \<times> 'v client" where
  "save_table py order wh table c =
     (let tmp_table_id =
        project_id c @ ''.'' @ format_member py DATASET @ ''.'' @ format_member py TMP_TABLE in
      case save_new_table wh table tmp_table_id c of
        (Inl e, c1) \<Rightarrow> (Inl e, c1)
      | (Inr tid, c1) \<Rightarrow>
        (case merge_tables py order wh tmp_table_id c1 of
           (r, c2) \<Rightarrow>
             (case delete_table tmp_table_id c2 of
                (Inl e, c3) \<Rightarrow> (Inl e, c3)
              | (Inr u, c3) \<Rightarrow> (r, c3))))"

section \<open>Example inputs\<close>

text \<open>
  A frame with one row, the declared columns in reverse order and one column more; a
  warehouse that accepts every table name and every job, and one whose query job ends in
  \<^verbatim>\<open>BadRequest\<close>; a client of project \<^verbatim>\<open>p\<close> with no tables yet.
\<close>

definition example_frame :: "nat dataframe" where
  "example_frame =
     \<lparr>n_rows = 1,
      columns = (''extra'', [Some 0]) # rev (map (\<lambda>e. (fst e, [Some 1])) REDDITADS_SCHEMA)\<rparr>"

definition merging_warehouse :: "nat warehouse" where
  "merging_warehouse =
     \<lparr>rejected_table_id = (\<lambda>t. None), load_job = (\<lambda>t cfg df. Done),
      query_job = (\<lambda>q ts. (Done, ts))\<rparr>"

definition rejecting_warehouse :: "nat warehouse" where
  "rejecting_warehouse =
     \<lparr>rejected_table_id = (\<lambda>t. None), load_job = (\<lambda>t cfg df. Done),
      query_job = (\<lambda>q ts. (BadRequest ''merge failed'', ts))\<rparr>"

definition example_client :: "nat client" where
  "example_client = \<lparr>project_id = ''p'', tables = [], calls = []\<rparr>"

section \<open>Properties of the token exchange\<close>

lemma map_of_update_same: "map_of (AList.update k v al) k = Some v"
  by (simp add: update_conv')

lemma map_of_update_other: "k' \<noteq> k \<Longrightarrow> map_of (AList.update k v al) k' = map_of al k'"
  by (simp add: update_conv')

text \<open>What a successful exchange returns and stores.\<close>

lemma make_request_Inr:
  assumes "make_request res config data w = (Inr config', w')"
  shows "\<exists>token. json_body res = Some token \<and> map_of token ''error'' = None
     \<and> config' = AList.update ''access_token''
          (py_or (dict_get token ''access_token'') (dict_get data ''access_token''))
          (AList.update ''refresh_token''
            (py_or (dict_get token ''refresh_token'') (dict_get data ''refresh_token'')) config)
     \<and> secret_versions w' = secret_versions w @ [config']"
  using assms
  by (auto simp: make_request_def save_token_def Let_def split: option.splits sum.splits)

lemma refresh_token_Inr:
  assumes "refresh_token res w = (Inr config', w')"
  shows "\<exists>config prior. read_token w = Inr config \<and> map_of config ''refresh_token'' = Some prior
     \<and> make_request res config
          [(''grant_type'', PStr ''refresh_token''), (''refresh_token'', prior)] w = (Inr config', w')"
  using assms
  by (auto simp: refresh_token_def Let_def split: option.splits sum.splits)

text \<open>
  On the refresh-token grant, the payload carries the stored \<^verbatim>\<open>refresh_token\<close>, so a
  response without one leaves it as it was, in the returned and in the stored record.
\<close>

lemma refresh_token_keeps_prior:
  assumes "refresh_token res w = (Inr config', w')"
    and "read_token w = Inr config"
    and "json_body res = Some token"
    and "dict_get token ''refresh_token'' = PNone"
  shows "map_of config' ''refresh_token'' = map_of config ''refresh_token''
       \<and> secret_versions w' = secret_versions w @ [config']"
proof -
  from refresh_token_Inr[OF assms(1)] assms(2) obtain prior where
    prior: "map_of config ''refresh_token'' = Some prior"
    and mr: "make_request res config
          [(''grant_type'', PStr ''refresh_token''), (''refresh_token'', prior)] w = (Inr config', w')"
    by auto
  from make_request_Inr[OF mr] assms(3,4) prior show ?thesis
    by (auto simp: py_or_def dict_get_def map_of_update_same map_of_update_other)
qed

text \<open>
  The fallback for \<^verbatim>\<open>access_token\<close> reads the payload as well, and the refresh
  payload has no such entry: a response without \<^verbatim>\<open>access_token\<close> stores
  \<^verbatim>\<open>None\<close>, whatever was stored before.
\<close>

lemma refresh_token_access_token_fallback:
  assumes "refresh_token res w = (Inr config', w')"
    and "json_body res = Some token"
    and "map_of token ''access_token'' = None"
  shows "map_of config' ''access_token'' = Some PNone
       \<and> secret_versions w' = secret_versions w @ [config']"
proof -
  from refresh_token_Inr[OF assms(1)] obtain config prior where
    mr: "make_request res config
          [(''grant_type'', PStr ''refresh_token''), (''refresh_token'', prior)] w = (Inr config', w')"
    by auto
  from make_request_Inr[OF mr] assms(2,3) show ?thesis
    by (auto simp: py_or_def dict_get_def map_of_update_same)
qed

text \<open>
  C1. A response without \<^verbatim>\<open>refresh_token\<close> should leave the stored
  \<^verbatim>\<open>refresh_token\<close> unchanged for both grant payloads. With the payload of the
  authorization-code grant, which has no \<^verbatim>\<open>refresh_token\<close> entry, the exchange
  replaces the stored value \<^verbatim>\<open>r0\<close> by \<^verbatim>\<open>None\<close> in the record it returns
  and saves.
\<close>

theorem make_request_authorization_code_loses_refresh_token:
  "map_of [(''client_id'', PStr ''id''), (''client_secret'', PStr ''s3''),
        (''redirect_url'', PStr ''http://localhost''),
        (''refresh_token'', PStr ''r0''), (''access_token'', PStr ''a0'')] ''refresh_token''
     = Some (PStr ''r0'')
   \<and> make_request
       \<lparr>status_code = 200, json_body = Some [(''access_token'', PStr ''a1'')]\<rparr>
       [(''client_id'', PStr ''id''), (''client_secret'', PStr ''s3''),
        (''redirect_url'', PStr ''http://localhost''),
        (''refresh_token'', PStr ''r0''), (''access_token'', PStr ''a0'')]
       [(''grant_type'', PStr ''authorization_code''), (''code'', PStr ''abc''),
        (''redirect_uri'', PStr ''http://localhost'')]
       \<lparr>secret_versions = [], posts = []\<rparr>
     = (Inr [(''client_id'', PStr ''id''), (''client_secret'', PStr ''s3''),
             (''redirect_url'', PStr ''http://localhost''),
             (''refresh_token'', PNone), (''access_token'', PStr ''a1'')],
        \<lparr>secret_versions =
           [[(''client_id'', PStr ''id''), (''client_secret'', PStr ''s3''),
             (''redirect_url'', PStr ''http://localhost''),
             (''refresh_token'', PNone), (''access_token'', PStr ''a1'')]],
         posts = [Post token_url (PStr ''id'', PStr ''s3'')
           [(''grant_type'', PStr ''authorization_code''), (''code'', PStr ''abc''),
            (''redirect_uri'', PStr ''http://localhost'')]]\<rparr>)"
  by (simp add: make_request_def raise_for_status_def dict_get_def py_or_def save_token_def Let_def)

text \<open>
  C6. A successful response without \<^verbatim>\<open>access_token\<close> should leave the stored
  \<^verbatim>\<open>access_token\<close> unchanged. On the refresh path the stored value \<^verbatim>\<open>a0\<close>
  is replaced by \<^verbatim>\<open>None\<close> in the record returned and saved.
\<close>

theorem refresh_token_loses_access_token:
  "refresh_token
       \<lparr>status_code = 200, json_body = Some [(''refresh_token'', PStr ''r1'')]\<rparr>
       \<lparr>secret_versions =
          [[(''client_id'', PStr ''id''), (''client_secret'', PStr ''s3''),
            (''refresh_token'', PStr ''r0''), (''access_token'', PStr ''a0'')]],
        posts = []\<rparr>
     = (Inr [(''client_id'', PStr ''id''), (''client_secret'', PStr ''s3''),
             (''refresh_token'', PStr ''r1''), (''access_token'', PNone)],
        \<lparr>secret_versions =
           [[(''client_id'', PStr ''id''), (''client_secret'', PStr ''s3''),
             (''refresh_token'', PStr ''r0''), (''access_token'', PStr ''a0'')],
            [(''client_id'', PStr ''id''), (''client_secret'', PStr ''s3''),
             (''refresh_token'', PStr ''r1''), (''access_token'', PNone)]],
         posts = [Post token_url (PStr ''id'', PStr ''s3'')
           [(''grant_type'', PStr ''refresh_token''), (''refresh_token'', PStr ''r0'')]]\<rparr>)"
  by (simp add: refresh_token_def read_token_def make_request_def raise_for_status_def
        dict_get_def py_or_def save_token_def Let_def)

text \<open>
  C4. When the token endpoint answers with a 2xx status and a JSON body that has an
  \<^verbatim>\<open>error\<close> field, the exchange raises the HTTP error carrying that field's value;
  the request has been sent, \<^verbatim>\<open>save_token\<close> is not called and the stored secret
  is unchanged.
\<close>

theorem make_request_error_field:
  assumes "200 \<le> status_code res" and "status_code res < 300"
    and "json_body res = Some token" and "map_of token ''error'' = Some e"
    and "map_of config ''client_id'' = Some client_id"
    and "map_of config ''client_secret'' = Some client_secret"
  shows "make_request res config data w =
           (Inl (HTTPError_error e),
            w\<lparr>posts := posts w @ [Post token_url (client_id, client_secret) data]\<rparr>)
       \<and> secret_versions (snd (make_request res config data w)) = secret_versions w"
  using assms by (simp add: make_request_def raise_for_status_def)

theorem make_request_error_field_witness:
  "make_request \<lparr>status_code = 200, json_body = Some [(''error'', PStr ''invalid_grant'')]\<rparr>
         [(''client_id'', PStr ''id''), (''client_secret'', PStr ''s3''), (''refresh_token'', PStr ''r0'')]
         [(''grant_type'', PStr ''refresh_token''), (''refresh_token'', PStr ''r0'')]
         \<lparr>secret_versions = [[(''client_id'', PStr ''id''), (''client_secret'', PStr ''s3''),
                               (''refresh_token'', PStr ''r0'')]], posts = []\<rparr>
     = (Inl (HTTPError_error (PStr ''invalid_grant'')),
        \<lparr>secret_versions = [[(''client_id'', PStr ''id''), (''client_secret'', PStr ''s3''),
                               (''refresh_token'', PStr ''r0'')]],
         posts = [Post token_url (PStr ''id'', PStr ''s3'')
            [(''grant_type'', PStr ''refresh_token''), (''refresh_token'', PStr ''r0'')]]\<rparr>)"
  using make_request_error_field
    [of "\<lparr>status_code = 200, json_body = Some [(''error'', PStr ''invalid_grant'')]\<rparr>"
        "[(''error'', PStr ''invalid_grant'')]" "PStr ''invalid_grant''"
        "[(''client_id'', PStr ''id''), (''client_secret'', PStr ''s3''), (''refresh_token'', PStr ''r0'')]"
        "PStr ''id''" "PStr ''s3''"
        "[(''grant_type'', PStr ''refresh_token''), (''refresh_token'', PStr ''r0'')]"
        "\<lparr>secret_versions = [[(''client_id'', PStr ''id''), (''client_secret'', PStr ''s3''),
                               (''refresh_token'', PStr ''r0'')]], posts = []\<rparr>"]
  by simp

text \<open>
  C9, as amended. For every code string \<^verbatim>\<open>get_token\<close> fails before any request is
  sent and before the stored secret is touched: with the \<^verbatim>\<open>TypeError\<close> of calling
  \<^verbatim>\<open>make_request\<close> with one argument when \<^verbatim>\<open>self.config\<close> has a
  \<^verbatim>\<open>redirect_url\<close> entry, and with a \<^verbatim>\<open>KeyError\<close> raised while the payload
  is built when it has none.
\<close>

theorem get_token_always_fails:
  "get_token res self_config code w =
     (Inl (if ''redirect_url'' \<in> fst ` set self_config
           then TypeError_missing ''make_request'' [''data'']
           else KeyError [''redirect_url'']), w)"
  by (auto simp: get_token_def map_of_eq_None_iff[symmetric] split: option.splits)

text \<open>
  C9 as stated fails for a configuration without \<^verbatim>\<open>redirect_url\<close>: the exception
  is a \<^verbatim>\<open>KeyError\<close>, not a \<^verbatim>\<open>TypeError\<close>.
\<close>

theorem get_token_KeyError_counterexample:
  "fst (get_token \<lparr>status_code = 200, json_body = Some []\<rparr>
       [(''client_id'', PStr ''id''), (''client_secret'', PStr ''s3''),
        (''refresh_token'', PStr ''r0''), (''access_token'', PStr ''a0'')]
       ''abc'' \<lparr>secret_versions = [], posts = []\<rparr>) = Inl (KeyError [''redirect_url''])
   \<and> \<not> raises_TypeError (fst (get_token \<lparr>status_code = 200, json_body = Some []\<rparr>
       [(''client_id'', PStr ''id''), (''client_secret'', PStr ''s3''),
        (''refresh_token'', PStr ''r0''), (''access_token'', PStr ''a0'')]
       ''abc'' \<lparr>secret_versions = [], posts = []\<rparr>))"
  by (simp add: get_token_def)

section \<open>Properties of the schema conversion\<close>

lemma convert_item_scalar:
  "convert_item name ''int'' = Inr (SchemaField name ''INTEGER'' ''NULLABLE'' [])"
  "convert_item name ''int!'' = Inr (SchemaField name ''INTEGER'' ''REQUIRED'' [])"
  "convert_item name ''float'' = Inr (SchemaField name ''FLOAT'' ''NULLABLE'' [])"
  "convert_item name ''float!'' = Inr (SchemaField name ''FLOAT'' ''REQUIRED'' [])"
  "convert_item name ''timestamp'' = Inr (SchemaField name ''TIMESTAMP'' ''NULLABLE'' [])"
  "convert_item name ''timestamp!'' = Inr (SchemaField name ''TIMESTAMP'' ''REQUIRED'' [])"
  "convert_item name ''str'' = Inr (SchemaField name ''STRING'' ''NULLABLE'' [])"
  "convert_item name ''str!'' = Inr (SchemaField name ''STRING'' ''REQUIRED'' [])"
  by (simp_all add: convert_item_def split_mode_def type_dict_def)

lemma convert_item_conversion:
  "convert_item name ''conversion'' = Inr (conversion_field name)"
  "convert_item name ''conversion!'' = Inr (conversion_field name)"
  by (simp_all add: convert_item_def split_mode_def type_dict_def)






lemma convert_item_supported_Inr:
  assumes "dtype \<in> {''int'', ''int!'', ''float'', ''float!'', ''timestamp'', ''timestamp!'',
                   ''str'', ''str!'', ''conversion'', ''conversion!''}"
  shows "\<exists>f. convert_item name dtype = Inr f"
proof -
  from assms have "dtype = ''int'' \<or> dtype = ''int!'' \<or> dtype = ''float'' \<or> dtype = ''float!''
      \<or> dtype = ''timestamp'' \<or> dtype = ''timestamp!'' \<or> dtype = ''str'' \<or> dtype = ''str!''
      \<or> dtype = ''conversion'' \<or> dtype = ''conversion!''"
    by (simp only: insert_iff empty_iff simp_thms)
  then show ?thesis
    by (elim disjE) (simp_all only: convert_item_scalar convert_item_conversion sum.inject simp_thms)
qed



lemma loop_total:
  "(\<forall>(n, d) \<in> set schema. \<exists>f. convert_item n d = Inr f) \<Longrightarrow>
     schema_to_bq_loop schema acc = Inr (acc @ map (\<lambda>(n, d). projr (convert_item n d)) schema)"
  by (induction schema acc rule: schema_to_bq_loop.induct) (auto split: sum.splits)






lemma REDDITADS_SCHEMA_supported:
  "\<forall>(n, d) \<in> set REDDITADS_SCHEMA.
     d \<in> {''int'', ''int!'', ''float'', ''float!'', ''timestamp'', ''timestamp!'',
           ''str'', ''str!'', ''conversion'', ''conversion!''}"
  by (simp add: REDDITADS_SCHEMA_def)


section \<open>Properties of transform\_report\<close>

lemma set_column_labels: "set (column_labels report) = (\<Union>row \<in> set report. fst ` set row)"
  by (auto simp: column_labels_def)

lemma labels_DataFrame: "map fst (columns (DataFrame report)) = column_labels report"
  by (simp add: DataFrame_def comp_def)

lemma drop_columns_missing:
  assumes "c \<in> set labels" and "c \<notin> set (map fst (columns df))"
  shows "\<exists>missing. drop_columns labels df = Inl (KeyError missing) \<and> c \<in> set missing"
proof -
  define missing where "missing = filter (\<lambda>l. l \<notin> set (map fst (columns df))) labels"
  from assms have in_missing: "c \<in> set missing"
    unfolding missing_def by simp
  then obtain m ms where eq: "missing = m # ms"
    by (cases missing) auto
  have "drop_columns labels df = Inl (KeyError missing)"
    unfolding drop_columns_def missing_def[symmetric] eq by simp
  with in_missing show ?thesis by blast
qed

text \<open>
  C10. \<^verbatim>\<open>transform_report\<close> drops the columns \<^verbatim>\<open>ad_group_id\<close>,
  \<^verbatim>\<open>campaign_id\<close> and \<^verbatim>\<open>account_id\<close> unconditionally: when one of them is
  in no row of the report, it raises a \<^verbatim>\<open>KeyError\<close> naming that column.
\<close>

theorem transform_report_missing_id_column:
  assumes "c \<in> {''ad_group_id'', ''campaign_id'', ''account_id''}"
    and "\<forall>row \<in> set report. c \<notin> fst ` set row"
  shows "\<exists>missing. transform_report to_datetime report = Inl (KeyError missing) \<and> c \<in> set missing"
proof -
  from assms(2) have "c \<notin> set (column_labels report)"
    unfolding set_column_labels by blast
  then have absent: "c \<notin> set (map fst (columns (DataFrame report)))"
    unfolding labels_DataFrame .
  from assms(1) have "c \<in> set [''ad_group_id'', ''campaign_id'', ''account_id'']" by auto
  from drop_columns_missing[OF this absent] obtain missing where
    d: "drop_columns [''ad_group_id'', ''campaign_id'', ''account_id''] (DataFrame report) = Inl (KeyError missing)"
    and m: "c \<in> set missing"
    by blast
  have "transform_report to_datetime report = Inl (KeyError missing)"
    unfolding transform_report_def d by simp
  with m show ?thesis by blast
qed

text \<open>C10 at the empty report, and at a report whose rows have no \<^verbatim>\<open>campaign_id\<close>.\<close>

theorem transform_report_empty_witness:
  "(\<exists>missing. transform_report Inr ([] :: (string \<times> nat option) list list) = Inl (KeyError missing)
      \<and> ''ad_group_id'' \<in> set missing)
   \<and> (\<exists>missing. transform_report Inr
          [[(''date'', Some (1::nat)), (''ad_id'', Some 2), (''ad_group_id'', Some 3),
            (''account_id'', Some 4)]] = Inl (KeyError missing)
      \<and> ''campaign_id'' \<in> set missing)"
  using transform_report_missing_id_column[of "''ad_group_id''" "[]" Inr]
    transform_report_missing_id_column[of "''campaign_id''"
      "[[(''date'', Some (1::nat)), (''ad_id'', Some 2), (''ad_group_id'', Some 3),
         (''account_id'', Some 4)]]" Inr]
  by simp

lemma transform_report_empty: "transform_report td [] = Inl (KeyError [''ad_group_id'', ''campaign_id'', ''account_id''])"
  by (simp add: transform_report_def drop_columns_def DataFrame_def column_labels_def)

section \<open>Properties of the staging load and of save\_table\<close>

lemma schema_to_bq_REDDITADS_SCHEMA: "\<exists>sch. schema_to_bq REDDITADS_SCHEMA = Inr sch"
proof -
  have "\<forall>(n, d) \<in> set REDDITADS_SCHEMA. \<exists>f. convert_item n d = Inr f"
  proof (clarify)
    fix n d assume "(n, d) \<in> set REDDITADS_SCHEMA"
    from bspec[OF REDDITADS_SCHEMA_supported this]
    have "d \<in> {''int'', ''int!'', ''float'', ''float!'', ''timestamp'', ''timestamp!'',
               ''str'', ''str!'', ''conversion'', ''conversion!''}" by (simp only: prod.case)
    then show "\<exists>f. convert_item n d = Inr f" by (rule convert_item_supported_Inr)
  qed
  from loop_total[OF this, of "[]"] show ?thesis by (simp add: schema_to_bq_def)
qed

lemma map_of_identity_pairs:
  "l \<in> set labels \<Longrightarrow> map_of (map (\<lambda>l. (l, f l)) labels) l = Some (f l)"
  by (induction labels) auto

lemma select_columns_Inr:
  assumes "select_columns labels df = Inr df'"
  shows "map fst (columns df') = labels"
    and "n_rows df' = n_rows df"
    and "set labels \<subseteq> set (map fst (columns df))"
    and "l \<in> set labels \<Longrightarrow> map_of (columns df') l = map_of (columns df) l"
proof -
  define missing where "missing = filter (\<lambda>l. l \<notin> set (map fst (columns df))) labels"
  from assms have m: "missing = []" and
    df': "df' = df\<lparr>columns := map (\<lambda>l. (l, the (map_of (columns df) l))) labels\<rparr>"
    unfolding select_columns_def missing_def[symmetric] by (cases missing; simp)+
  show "map fst (columns df') = labels" using df' by (simp add: comp_def)
  show "n_rows df' = n_rows df" using df' by simp
  show sub: "set labels \<subseteq> set (map fst (columns df))"
    using m unfolding missing_def by (auto simp: filter_empty_conv)
  assume l: "l \<in> set labels"
  with sub have "l \<in> fst ` set (columns df)" by auto
  then obtain v where "map_of (columns df) l = Some v"
    by (metis map_of_eq_None_iff not_Some_eq)
  with l df' show "map_of (columns df') l = map_of (columns df) l"
    by (simp add: map_of_identity_pairs)
qed

lemma select_columns_total:
  assumes "set labels \<subseteq> set (map fst (columns df))"
  shows "select_columns labels df =
           Inr (df\<lparr>columns := map (\<lambda>l. (l, the (map_of (columns df) l))) labels\<rparr>)"
proof -
  from assms have "filter (\<lambda>l. l \<notin> set (map fst (columns df))) labels = []"
    by (auto simp: filter_empty_conv)
  then show ?thesis unfolding select_columns_def by simp
qed

lemma save_new_table_Inr:
  assumes "fst (save_new_table wh table table_id c) = Inr tid"
  shows "\<exists>sch staged.
      schema_to_bq REDDITADS_SCHEMA = Inr sch
    \<and> select_columns (map fst REDDITADS_SCHEMA) table = Inr staged
    \<and> tid = table_id
    \<and> snd (save_new_table wh table table_id c) =
        c\<lparr>calls := calls c @ [LoadTable table_id
               \<lparr>job_schema = sch, job_source_format = ''PARQUET'',
                job_write_disposition = ''WRITE_TRUNCATE''\<rparr> staged],
          tables := AList.update table_id \<lparr>table_schema = sch, table_data = staged\<rparr> (tables c)\<rparr>"
  using assms
  by (auto simp: save_new_table_def Let_def apply_load_def
           split: sum.splits job_outcome.splits option.splits)

lemma save_new_table_total:
  assumes "set (map fst REDDITADS_SCHEMA) \<subseteq> set (map fst (columns table))"
    and "\<And>cfg df. load_job wh table_id cfg df = Done"
  shows "fst (save_new_table wh table table_id c) = Inr table_id"
proof -
  from schema_to_bq_REDDITADS_SCHEMA obtain sch where "schema_to_bq REDDITADS_SCHEMA = Inr sch" ..
  with select_columns_total[OF assms(1)] assms(2) show ?thesis
    by (simp add: save_new_table_def Let_def)
qed

text \<open>
  C7. When \<^verbatim>\<open>save_new_table\<close> returns, it has sent one load job for the table with
  the write disposition \<^verbatim>\<open>WRITE_TRUNCATE\<close>; the frame it loaded, which is then the
  content of the table, has exactly the declared columns of the schema in their declared
  order, with the values of the input, and no column that the schema does not declare.
  It returns whenever the input has every declared column and the load job succeeds.
\<close>

theorem save_new_table_stages_declared_columns:
  "(fst (save_new_table wh table table_id c) = Inr tid \<longrightarrow>
      tid = table_id
    \<and> (\<exists>cfg staged.
          calls (snd (save_new_table wh table table_id c)) = calls c @ [LoadTable table_id cfg staged]
        \<and> job_write_disposition cfg = ''WRITE_TRUNCATE''
        \<and> map_of (tables (snd (save_new_table wh table table_id c))) table_id =
            Some \<lparr>table_schema = job_schema cfg, table_data = staged\<rparr>
        \<and> map fst (columns staged) = map fst REDDITADS_SCHEMA
        \<and> n_rows staged = n_rows table
        \<and> (\<forall>l \<in> set (map fst REDDITADS_SCHEMA). map_of (columns staged) l = map_of (columns table) l)
        \<and> (\<forall>l. l \<notin> set (map fst REDDITADS_SCHEMA) \<longrightarrow> map_of (columns staged) l = None)))
  \<and> (set (map fst REDDITADS_SCHEMA) \<subseteq> set (map fst (columns table))
      \<and> (\<forall>cfg df. load_job wh table_id cfg df = Done)
      \<longrightarrow> fst (save_new_table wh table table_id c) = Inr table_id)"
proof (intro conjI impI)
  assume h: "fst (save_new_table wh table table_id c) = Inr tid"
  from save_new_table_Inr[OF h] obtain sch staged where
    sel: "select_columns (map fst REDDITADS_SCHEMA) table = Inr staged"
    and tid: "tid = table_id"
    and st: "snd (save_new_table wh table table_id c) =
        c\<lparr>calls := calls c @ [LoadTable table_id
               \<lparr>job_schema = sch, job_source_format = ''PARQUET'',
                job_write_disposition = ''WRITE_TRUNCATE''\<rparr> staged],
          tables := AList.update table_id \<lparr>table_schema = sch, table_data = staged\<rparr> (tables c)\<rparr>"
    by blast
  show "tid = table_id" by (rule tid)
  let ?cfg = "\<lparr>job_schema = sch, job_source_format = ''PARQUET'',
                job_write_disposition = ''WRITE_TRUNCATE''\<rparr>"
  have 1: "calls (snd (save_new_table wh table table_id c)) = calls c @ [LoadTable table_id ?cfg staged]"
    unfolding st by simp
  have 2: "job_write_disposition ?cfg = ''WRITE_TRUNCATE''" by simp
  have 3: "map_of (tables (snd (save_new_table wh table table_id c))) table_id =
            Some \<lparr>table_schema = job_schema ?cfg, table_data = staged\<rparr>"
    unfolding st by (simp add: map_of_update_same)
  have 4: "map fst (columns staged) = map fst REDDITADS_SCHEMA"
    by (rule select_columns_Inr(1)[OF sel])
  have 5: "n_rows staged = n_rows table"
    by (rule select_columns_Inr(2)[OF sel])
  have 6: "\<forall>l \<in> set (map fst REDDITADS_SCHEMA). map_of (columns staged) l = map_of (columns table) l"
    using select_columns_Inr(4)[OF sel] by blast
  have 7: "\<forall>l. l \<notin> set (map fst REDDITADS_SCHEMA) \<longrightarrow> map_of (columns staged) l = None"
    unfolding 4[symmetric] by (simp add: map_of_eq_None_iff)
  from 1 2 3 4 5 6 7 show "\<exists>cfg staged.
          calls (snd (save_new_table wh table table_id c)) = calls c @ [LoadTable table_id cfg staged]
        \<and> job_write_disposition cfg = ''WRITE_TRUNCATE''
        \<and> map_of (tables (snd (save_new_table wh table table_id c))) table_id =
            Some \<lparr>table_schema = job_schema cfg, table_data = staged\<rparr>
        \<and> map fst (columns staged) = map fst REDDITADS_SCHEMA
        \<and> n_rows staged = n_rows table
        \<and> (\<forall>l \<in> set (map fst REDDITADS_SCHEMA). map_of (columns staged) l = map_of (columns table) l)
        \<and> (\<forall>l. l \<notin> set (map fst REDDITADS_SCHEMA) \<longrightarrow> map_of (columns staged) l = None)"
    by blast
next
  assume h: "set (map fst REDDITADS_SCHEMA) \<subseteq> set (map fst (columns table))
      \<and> (\<forall>cfg df. load_job wh table_id cfg df = Done)"
  then show "fst (save_new_table wh table table_id c) = Inr table_id"
    using save_new_table_total[of table wh table_id c] by blast
qed

lemma example_frame_has_schema_columns:
  "set (map fst REDDITADS_SCHEMA) \<subseteq> set (map fst (columns example_frame))"
proof -
  have "map fst (columns example_frame) = ''extra'' # rev (map fst REDDITADS_SCHEMA)"
    by (simp add: example_frame_def rev_map comp_def)
  then show ?thesis by auto
qed

text \<open>C7 at the example frame, whose first column is not declared.\<close>

theorem save_new_table_stages_declared_columns_witness:
  "fst (save_new_table merging_warehouse example_frame ''p.reddit.redditads_tmp'' example_client)
     = Inr ''p.reddit.redditads_tmp''
   \<and> hd (map fst (columns example_frame)) = ''extra''
   \<and> (\<exists>cfg staged.
          calls (snd (save_new_table merging_warehouse example_frame ''p.reddit.redditads_tmp''
                        example_client))
            = calls example_client @ [LoadTable ''p.reddit.redditads_tmp'' cfg staged]
        \<and> job_write_disposition cfg = ''WRITE_TRUNCATE''
        \<and> map fst (columns staged) = map fst REDDITADS_SCHEMA
        \<and> map_of (columns staged) ''extra'' = None)"
proof -
  have loads: "\<forall>cfg df. load_job merging_warehouse ''p.reddit.redditads_tmp'' cfg df = Done"
    by (simp add: merging_warehouse_def)
  note inst = save_new_table_stages_declared_columns
    [of merging_warehouse example_frame "''p.reddit.redditads_tmp''" example_client
        "''p.reddit.redditads_tmp''"]
  from inst example_frame_has_schema_columns loads
  have ok: "fst (save_new_table merging_warehouse example_frame ''p.reddit.redditads_tmp'' example_client)
     = Inr ''p.reddit.redditads_tmp''"
    by blast
  have extra: "''extra'' \<notin> set (map fst REDDITADS_SCHEMA)"
    by (simp add: REDDITADS_SCHEMA_def)
  have hd: "hd (map fst (columns example_frame)) = ''extra''"
    by (simp add: example_frame_def)
  from inst ok extra hd show ?thesis
    by blast
qed

text \<open>merge\_tables, delete\_table and save\_table\<close>

lemma merge_tables_eq:
  assumes "schema_to_bq REDDITADS_SCHEMA = Inr sch"
    and "dest = project_id c @ ''.'' @ format_member py DATASET @ ''.'' @ format_member py TABLE"
    and "rejected_table_id wh dest = None"
    and "query_job wh (merge_query order dest tmp)
           (tables (create_table dest sch c)) = (outcome, ts)"
  shows "merge_tables py order wh tmp c =
     ((case outcome of Done \<Rightarrow> Inr () | BadRequest errs \<Rightarrow> Inl (ValueError errs)
        | Failed e \<Rightarrow> Inl e),
      (create_table dest sch c)
        \<lparr>calls := calls c @ [CreateTable dest sch, Query (merge_query order dest tmp)],
         tables := ts\<rparr>)"
  using assms
  by (cases outcome) (simp_all add: merge_tables_def ensure_table_def Let_def create_table_def
        split: option.splits)

lemma delete_table_calls:
  "calls (snd (delete_table t c)) = calls c @ [DeleteTable t]"
  by (simp add: delete_table_def Let_def split: option.splits)

lemma delete_table_absent:
  "map_of (tables (snd (delete_table t c))) t = None"
  by (simp add: delete_table_def Let_def delete_conv' split: option.splits)

lemma delete_table_fst:
  "fst (delete_table t c) = (if map_of (tables c) t = None then Inl (NotFound t) else Inr ())"
  by (simp add: delete_table_def Let_def split: option.splits)

lemma save_table_after_staging:
  assumes "save_new_table wh table (project_id c @ ''.'' @ format_member py DATASET @ ''.'' @ format_member py TMP_TABLE) c = (Inr tid, c1)"
    and "merge_tables py order wh (project_id c @ ''.'' @ format_member py DATASET @ ''.'' @ format_member py TMP_TABLE) c1 = (r, c2)"
  shows "save_table py order wh table c =
     (case fst (delete_table (project_id c @ ''.'' @ format_member py DATASET @ ''.'' @ format_member py TMP_TABLE) c2) of
        Inl e \<Rightarrow> Inl e | Inr u \<Rightarrow> r,
      snd (delete_table (project_id c @ ''.'' @ format_member py DATASET @ ''.'' @ format_member py TMP_TABLE) c2))"
  using assms by (simp add: save_table_def Let_def split: prod.splits sum.splits)

text \<open>
  C3. Once \<^verbatim>\<open>save_new_table\<close> has staged the frame, whatever
  \<^verbatim>\<open>merge_tables\<close> returns or raises (\<open>r\<close>), \<^verbatim>\<open>save_table\<close> sends the
  delete of the staging table as its next and last call, the staging table is gone
  afterwards, and the result is that of the merge: its exception after the delete, or
  success. (Only when the staging table is no longer there does the delete raise
  \<^verbatim>\<open>NotFound\<close>, which then replaces the result.)
\<close>

theorem save_table_deletes_staging_table:
  assumes "save_new_table wh table (project_id c @ ''.'' @ format_member py DATASET @ ''.'' @ format_member py TMP_TABLE) c = (Inr tid, c1)"
    and "merge_tables py order wh (project_id c @ ''.'' @ format_member py DATASET @ ''.'' @ format_member py TMP_TABLE) c1 = (r, c2)"
  shows "calls (snd (save_table py order wh table c)) =
           calls c2 @ [DeleteTable (project_id c @ ''.'' @ format_member py DATASET @ ''.'' @ format_member py TMP_TABLE)]
       \<and> map_of (tables (snd (save_table py order wh table c)))
           (project_id c @ ''.'' @ format_member py DATASET @ ''.'' @ format_member py TMP_TABLE) = None
       \<and> fst (save_table py order wh table c) =
           (if map_of (tables c2) (project_id c @ ''.'' @ format_member py DATASET @ ''.'' @ format_member py TMP_TABLE) = None
            then Inl (NotFound (project_id c @ ''.'' @ format_member py DATASET @ ''.'' @ format_member py TMP_TABLE)) else r)"
  unfolding save_table_after_staging[OF assms]
  by (simp add: delete_table_calls delete_table_absent delete_table_fst)

lemma example_staging:
  "\<exists>sch staged.
     schema_to_bq REDDITADS_SCHEMA = Inr sch \<and>
     save_new_table rejecting_warehouse example_frame ''p.reddit.redditads_tmp'' example_client =
       (Inr ''p.reddit.redditads_tmp'',
        \<lparr>project_id = ''p'',
         tables = [(''p.reddit.redditads_tmp'', \<lparr>table_schema = sch, table_data = staged\<rparr>)],
         calls = [LoadTable ''p.reddit.redditads_tmp''
               \<lparr>job_schema = sch, job_source_format = ''PARQUET'',
                job_write_disposition = ''WRITE_TRUNCATE''\<rparr> staged]\<rparr>)"
proof -
  have ok: "fst (save_new_table rejecting_warehouse example_frame ''p.reddit.redditads_tmp'' example_client)
      = Inr ''p.reddit.redditads_tmp''"
    by (rule save_new_table_total[OF example_frame_has_schema_columns])
       (simp add: rejecting_warehouse_def)
  from save_new_table_Inr[OF ok] obtain sch staged where
    sch: "schema_to_bq REDDITADS_SCHEMA = Inr sch" and
    st: "snd (save_new_table rejecting_warehouse example_frame ''p.reddit.redditads_tmp'' example_client) =
        example_client\<lparr>calls := calls example_client @ [LoadTable ''p.reddit.redditads_tmp''
               \<lparr>job_schema = sch, job_source_format = ''PARQUET'',
                job_write_disposition = ''WRITE_TRUNCATE''\<rparr> staged],
          tables := AList.update ''p.reddit.redditads_tmp''
               \<lparr>table_schema = sch, table_data = staged\<rparr> (tables example_client)\<rparr>"
    by blast
  have "save_new_table rejecting_warehouse example_frame ''p.reddit.redditads_tmp'' example_client =
       (Inr ''p.reddit.redditads_tmp'',
        \<lparr>project_id = ''p'',
         tables = [(''p.reddit.redditads_tmp'', \<lparr>table_schema = sch, table_data = staged\<rparr>)],
         calls = [LoadTable ''p.reddit.redditads_tmp''
               \<lparr>job_schema = sch, job_source_format = ''PARQUET'',
                job_write_disposition = ''WRITE_TRUNCATE''\<rparr> staged]\<rparr>)"
    using ok st by (simp add: prod_eq_iff example_client_def)
  with sch show ?thesis by blast
qed

text \<open>C3 at a warehouse that rejects the merge statement.\<close>

theorem save_table_deletes_staging_table_witness:
  "fst (save_table Before_3_11 remdups rejecting_warehouse example_frame example_client)
     = Inl (ValueError ''merge failed'')
   \<and> last (calls (snd (save_table Before_3_11 remdups rejecting_warehouse example_frame example_client)))
     = DeleteTable ''p.reddit.redditads_tmp''
   \<and> map_of (tables (snd (save_table Before_3_11 remdups rejecting_warehouse example_frame example_client)))
       ''p.reddit.redditads_tmp'' = None"
proof -
  from example_staging obtain sch staged where
    sch: "schema_to_bq REDDITADS_SCHEMA = Inr sch" and
    st: "save_new_table rejecting_warehouse example_frame ''p.reddit.redditads_tmp'' example_client =
       (Inr ''p.reddit.redditads_tmp'',
        \<lparr>project_id = ''p'',
         tables = [(''p.reddit.redditads_tmp'', \<lparr>table_schema = sch, table_data = staged\<rparr>)],
         calls = [LoadTable ''p.reddit.redditads_tmp''
               \<lparr>job_schema = sch, job_source_format = ''PARQUET'',
                job_write_disposition = ''WRITE_TRUNCATE''\<rparr> staged]\<rparr>)"
    by blast
  define c1 :: "nat client" where "c1 = \<lparr>project_id = ''p'',
         tables = [(''p.reddit.redditads_tmp'', \<lparr>table_schema = sch, table_data = staged\<rparr>)],
         calls = [LoadTable ''p.reddit.redditads_tmp''
               \<lparr>job_schema = sch, job_source_format = ''PARQUET'',
                job_write_disposition = ''WRITE_TRUNCATE''\<rparr> staged]\<rparr>"
  define c2 where "c2 = (create_table ''p.reddit.redditads'' sch c1)
        \<lparr>calls := calls c1 @ [CreateTable ''p.reddit.redditads'' sch,
             Query (merge_query remdups ''p.reddit.redditads'' ''p.reddit.redditads_tmp'')],
         tables := tables (create_table ''p.reddit.redditads'' sch c1)\<rparr>"
  have q: "query_job rejecting_warehouse (merge_query remdups ''p.reddit.redditads'' ''p.reddit.redditads_tmp'')
             (tables (create_table ''p.reddit.redditads'' sch c1))
           = (BadRequest ''merge failed'', tables (create_table ''p.reddit.redditads'' sch c1))"
    by (simp add: rejecting_warehouse_def)
  have dest: "''p.reddit.redditads'' =
      project_id c1 @ ''.'' @ format_member Before_3_11 DATASET @ ''.'' @ format_member Before_3_11 TABLE"
    by (simp add: c1_def)
  have tmp: "project_id example_client @ ''.'' @ format_member Before_3_11 DATASET @ ''.'' @
      format_member Before_3_11 TMP_TABLE = ''p.reddit.redditads_tmp''"
    by (simp add: example_client_def)
  have taken: "rejected_table_id rejecting_warehouse ''p.reddit.redditads'' = None"
    by (simp add: rejecting_warehouse_def)
  have m: "merge_tables Before_3_11 remdups rejecting_warehouse ''p.reddit.redditads_tmp'' c1
      = (Inl (ValueError ''merge failed''), c2)"
    using merge_tables_eq[OF sch dest taken q] by (simp add: c2_def)
  have present: "map_of (tables c2) ''p.reddit.redditads_tmp'' \<noteq> None"
    by (simp add: c2_def c1_def create_table_def Let_def)
  have calls: "calls c2 \<noteq> []" by (simp add: c2_def)
  from save_table_deletes_staging_table
    [of rejecting_warehouse example_frame example_client Before_3_11 "''p.reddit.redditads_tmp''" c1
        remdups "Inl (ValueError ''merge failed'')" c2]
    st[folded c1_def] m present
  show ?thesis
    unfolding tmp by simp
qed

section \<open>Properties of the merge statement\<close>

text \<open>\<^verbatim>\<open>textwrap.indent\<close> on joined one-line terms.\<close>

lemma splitlines_line:
  "CHR 0x0A \<notin> set l \<Longrightarrow>
     splitlines_keepends (l @ CHR 0x0A # rest) = (l @ [CHR 0x0A]) # splitlines_keepends rest"
  by (induction l) auto

lemma splitlines_last:
  "CHR 0x0A \<notin> set l \<Longrightarrow> l \<noteq> [] \<Longrightarrow> splitlines_keepends l = [l]"
proof (induction l)
  case Nil
  then show ?case by simp
next
  case (Cons c l)
  then show ?case by (cases l) auto
qed

lemma indent_line:
  assumes "CHR 0x0A \<notin> set l" and "list_ex (\<lambda>c. \<not> isspace c) l"
  shows "textwrap_indent (l @ CHR 0x0A # rest) p = p @ l @ CHR 0x0A # textwrap_indent rest p"
  using assms by (simp add: textwrap_indent_def splitlines_line)

lemma indent_last:
  assumes "CHR 0x0A \<notin> set l" and "list_ex (\<lambda>c. \<not> isspace c) l"
  shows "textwrap_indent l p = p @ l"
proof -
  from assms(2) have "l \<noteq> []" by auto
  with assms show ?thesis by (simp add: textwrap_indent_def splitlines_last)
qed

lemma indent_str_join:
  assumes "xs \<noteq> []"
    and "\<forall>x \<in> set xs. CHR 0x0A \<notin> set x \<and> list_ex (\<lambda>c. \<not> isspace c) x"
    and "CHR 0x0A \<notin> set a" and "CHR 0x0A \<notin> set b" and "CHR 0x0A \<notin> set pre"
  shows "textwrap_indent (pre @ str_join (a @ CHR 0x0A # b) xs) p =
           p @ pre @ str_join (a @ CHR 0x0A # p @ b) xs"
  using assms
proof (induction xs arbitrary: pre rule: list_nonempty_induct)
  case (single x)
  then have "CHR 0x0A \<notin> set (pre @ x)" and "list_ex (\<lambda>c. \<not> isspace c) (pre @ x)"
    by (auto simp: list_ex_iff)
  from indent_last[OF this] show ?case by simp
next
  case (cons x xs)
  obtain y ys where xs: "xs = y # ys" using cons.hyps by (cases xs) auto
  from cons.prems have l: "CHR 0x0A \<notin> set (pre @ x @ a)"
    and nb: "list_ex (\<lambda>c. \<not> isspace c) (pre @ x @ a)"
    by (auto simp: list_ex_iff)
  from cons.prems have rest: "\<forall>x \<in> set xs. CHR 0x0A \<notin> set x \<and> list_ex (\<lambda>c. \<not> isspace c) x"
    by simp
  have "textwrap_indent (pre @ str_join (a @ CHR 0x0A # b) (x # xs)) p =
        textwrap_indent ((pre @ x @ a) @ CHR 0x0A # (b @ str_join (a @ CHR 0x0A # b) xs)) p"
    by (simp add: xs)
  also have "\<dots> = p @ (pre @ x @ a) @ CHR 0x0A # textwrap_indent (b @ str_join (a @ CHR 0x0A # b) xs) p"
    by (rule indent_line[OF l nb])
  also have "textwrap_indent (b @ str_join (a @ CHR 0x0A # b) xs) p =
        p @ b @ str_join (a @ CHR 0x0A # p @ b) xs"
    by (rule cons.IH[OF rest cons.prems(2) cons.prems(3) cons.prems(3)])
  finally show ?case by (simp add: xs)
qed

lemma plain_column_names:
  "\<forall>c \<in> set (map fst REDDITADS_SCHEMA). CHR 0x0A \<notin> set c \<and> list_ex (\<lambda>ch. \<not> isspace ch) c"
  by (simp add: REDDITADS_SCHEMA_def isspace_def)

lemma key_names_in_schema:
  "{''date'', ''ad_id'', ''ad_group_id'', ''account_id'', ''campaign_id''}
     \<subseteq> set (map fst REDDITADS_SCHEMA)"
  by (simp add: REDDITADS_SCHEMA_def)

lemma spend_not_key:
  "''spend'' \<in> set (map fst REDDITADS_SCHEMA)
     - {''date'', ''ad_id'', ''ad_group_id'', ''account_id'', ''campaign_id''}"
  by (simp add: REDDITADS_SCHEMA_def)

lemma set_merge_keys:
  assumes "iteration_order order"
  shows "set (merge_keys order) = {''date'', ''ad_id'', ''ad_group_id'', ''account_id'', ''campaign_id''}"
    and "distinct (merge_keys order)"
  using assms by (simp_all add: iteration_order_def merge_keys_def)

lemma set_insert_cols_list:
  assumes "iteration_order order"
  shows "set (insert_cols_list order) = set (map fst REDDITADS_SCHEMA)"
    and "distinct (insert_cols_list order)"
  using assms by (simp_all add: iteration_order_def insert_cols_list_def)

lemma set_update_cols_list:
  assumes "iteration_order order"
  shows "set (update_cols_list order) =
           set (map fst REDDITADS_SCHEMA)
             - {''date'', ''ad_id'', ''ad_group_id'', ''account_id'', ''campaign_id''}"
    and "distinct (update_cols_list order)"
proof -
  from assms have "set (update_cols_list order) =
      set (filter (\<lambda>c. c \<notin> set (merge_keys order)) (insert_cols_list order))"
    by (simp add: iteration_order_def update_cols_list_def)
  also have "\<dots> = set (insert_cols_list order) - set (merge_keys order)" by auto
  finally show "set (update_cols_list order) =
           set (map fst REDDITADS_SCHEMA)
             - {''date'', ''ad_id'', ''ad_group_id'', ''account_id'', ''campaign_id''}"
    by (simp only: set_merge_keys(1)[OF assms] set_insert_cols_list(1)[OF assms])
  from assms show "distinct (update_cols_list order)"
    by (simp add: iteration_order_def update_cols_list_def)
qed

lemma eight_spaces: "replicate 8 (CHR '' '') = ''        ''"
  by (simp add: eval_nat_numeral)

lemma indent_terms:
  assumes "cs \<noteq> []"
    and "set cs \<subseteq> set (map fst REDDITADS_SCHEMA)"
    and "\<And>c. CHR 0x0A \<notin> set c \<Longrightarrow> list_ex (\<lambda>ch. \<not> isspace ch) c \<Longrightarrow>
            CHR 0x0A \<notin> set (f c) \<and> list_ex (\<lambda>ch. \<not> isspace ch) (f c)"
    and "CHR 0x0A \<notin> set a" and "CHR 0x0A \<notin> set b"
  shows "indent (str_join (a @ CHR 0x0A # b) (map f cs)) =
           ''        '' @ str_join (a @ CHR 0x0A # ''        '' @ b) (map f cs)"
proof -
  have "\<forall>x \<in> set (map f cs). CHR 0x0A \<notin> set x \<and> list_ex (\<lambda>ch. \<not> isspace ch) x"
  proof
    fix x assume "x \<in> set (map f cs)"
    then obtain c where c: "c \<in> set cs" and x: "x = f c" by auto
    from c assms(2) have "c \<in> set (map fst REDDITADS_SCHEMA)" by blast
    with plain_column_names have "CHR 0x0A \<notin> set c \<and> list_ex (\<lambda>ch. \<not> isspace ch) c" by blast
    with assms(3) x show "CHR 0x0A \<notin> set x \<and> list_ex (\<lambda>ch. \<not> isspace ch) x" by blast
  qed
  moreover from assms(1) have "map f cs \<noteq> []" by simp
  ultimately have "textwrap_indent ([] @ str_join (a @ CHR 0x0A # b) (map f cs)) ''        '' =
      ''        '' @ [] @ str_join (a @ CHR 0x0A # ''        '' @ b) (map f cs)"
    using assms(4,5) by (intro indent_str_join) simp_all
  then show ?thesis
    unfolding indent_def eight_spaces by (simp only: append_Nil)
qed

lemma plain_join_term:
  "CHR 0x0A \<notin> set c \<Longrightarrow> list_ex (\<lambda>ch. \<not> isspace ch) c \<Longrightarrow>
     CHR 0x0A \<notin> set (''old.'' @ c @ '' = tmp.'' @ c)
       \<and> list_ex (\<lambda>ch. \<not> isspace ch) (''old.'' @ c @ '' = tmp.'' @ c)"
  by (simp add: list_ex_iff)

lemma plain_update_term:
  "CHR 0x0A \<notin> set c \<Longrightarrow> list_ex (\<lambda>ch. \<not> isspace ch) c \<Longrightarrow>
     CHR 0x0A \<notin> set (c @ '' = tmp.'' @ c)
       \<and> list_ex (\<lambda>ch. \<not> isspace ch) (c @ '' = tmp.'' @ c)"
  by (simp add: list_ex_iff)

lemma plain_value_term:
  "CHR 0x0A \<notin> set c \<Longrightarrow> list_ex (\<lambda>ch. \<not> isspace ch) c \<Longrightarrow>
     CHR 0x0A \<notin> set (''tmp.'' @ c) \<and> list_ex (\<lambda>ch. \<not> isspace ch) (''tmp.'' @ c)"
  by (simp add: list_ex_iff)

lemma merge_keys_nonempty:
  assumes "iteration_order order"
  shows "merge_keys order \<noteq> []"
proof -
  have "''date'' \<in> set (merge_keys order)"
    unfolding set_merge_keys(1)[OF assms] by (rule insertI1)
  then show ?thesis by (cases "merge_keys order") simp_all
qed

lemma update_cols_list_nonempty:
  assumes "iteration_order order"
  shows "update_cols_list order \<noteq> []"
proof -
  have "''spend'' \<in> set (update_cols_list order)"
    unfolding set_update_cols_list(1)[OF assms] by (rule spend_not_key)
  then show ?thesis by (cases "update_cols_list order") simp_all
qed

lemma insert_cols_list_nonempty:
  assumes "iteration_order order"
  shows "insert_cols_list order \<noteq> []"
proof -
  have "''spend'' \<in> set (insert_cols_list order)"
    unfolding set_insert_cols_list(1)[OF assms] using spend_not_key by (rule DiffD1)
  then show ?thesis by (cases "insert_cols_list order") simp_all
qed

lemma indent_join_cols:
  assumes "iteration_order order"
  shows "indent (join_cols order) =
      ''        '' @ str_join (NL @ ''        and '')
                     (map (\<lambda>c. ''old.'' @ c @ '' = tmp.'' @ c) (merge_keys order))"
proof -
  have sub: "set (merge_keys order) \<subseteq> set (map fst REDDITADS_SCHEMA)"
    unfolding set_merge_keys(1)[OF assms] by (rule key_names_in_schema)
  have a: "CHR 0x0A \<notin> set []" and b: "CHR 0x0A \<notin> set ''and ''" by simp_all
  have "indent (str_join ([] @ CHR 0x0A # ''and '')
           (map (\<lambda>c. ''old.'' @ c @ '' = tmp.'' @ c) (merge_keys order))) =
        ''        '' @ str_join ([] @ CHR 0x0A # ''        '' @ ''and '')
           (map (\<lambda>c. ''old.'' @ c @ '' = tmp.'' @ c) (merge_keys order))"
    by (rule indent_terms[OF merge_keys_nonempty[OF assms] sub plain_join_term a b])
  then show ?thesis by (simp add: join_cols_def NL_def)
qed

lemma indent_update_cols:
  assumes "iteration_order order"
  shows "indent (update_cols order) =
      ''        '' @ str_join ('','' @ NL @ ''        '')
                     (map (\<lambda>c. c @ '' = tmp.'' @ c) (update_cols_list order))"
proof -
  have sub: "set (update_cols_list order) \<subseteq> set (map fst REDDITADS_SCHEMA)"
    unfolding set_update_cols_list(1)[OF assms] by (rule Diff_subset)
  have a: "CHR 0x0A \<notin> set '',''" and b: "CHR 0x0A \<notin> set []" by simp_all
  have "indent (str_join ('','' @ CHR 0x0A # [])
           (map (\<lambda>c. c @ '' = tmp.'' @ c) (update_cols_list order))) =
        ''        '' @ str_join ('','' @ CHR 0x0A # ''        '' @ [])
           (map (\<lambda>c. c @ '' = tmp.'' @ c) (update_cols_list order))"
    by (rule indent_terms[OF update_cols_list_nonempty[OF assms] sub plain_update_term a b])
  then show ?thesis by (simp add: update_cols_def NL_def)
qed

lemma indent_insert_cols:
  assumes "iteration_order order"
  shows "indent (insert_cols order) =
      ''        '' @ str_join ('','' @ NL @ ''        '') (insert_cols_list order)"
proof -
  have sub: "set (insert_cols_list order) \<subseteq> set (map fst REDDITADS_SCHEMA)"
    unfolding set_insert_cols_list(1)[OF assms] by (rule subset_refl)
  have a: "CHR 0x0A \<notin> set '',''" and b: "CHR 0x0A \<notin> set []" by simp_all
  have plain: "\<And>c. CHR 0x0A \<notin> set c \<Longrightarrow> list_ex (\<lambda>ch. \<not> isspace ch) c \<Longrightarrow>
     CHR 0x0A \<notin> set ((\<lambda>x. x) c) \<and> list_ex (\<lambda>ch. \<not> isspace ch) ((\<lambda>x. x) c)"
    by simp
  have "indent (str_join ('','' @ CHR 0x0A # [])
           (map (\<lambda>x. x) (insert_cols_list order))) =
        ''        '' @ str_join ('','' @ CHR 0x0A # ''        '' @ [])
           (map (\<lambda>x. x) (insert_cols_list order))"
    by (rule indent_terms[OF insert_cols_list_nonempty[OF assms] sub plain a b])
  then show ?thesis by (simp add: insert_cols_def NL_def)
qed

lemma indent_value_cols:
  assumes "iteration_order order"
  shows "indent (value_cols order) =
      ''        '' @ str_join ('','' @ NL @ ''        '')
                     (map (\<lambda>c. ''tmp.'' @ c) (insert_cols_list order))"
proof -
  have sub: "set (insert_cols_list order) \<subseteq> set (map fst REDDITADS_SCHEMA)"
    unfolding set_insert_cols_list(1)[OF assms] by (rule subset_refl)
  have a: "CHR 0x0A \<notin> set '',''" and b: "CHR 0x0A \<notin> set []" by simp_all
  have "indent (str_join ('','' @ CHR 0x0A # [])
           (map (\<lambda>c. ''tmp.'' @ c) (insert_cols_list order))) =
        ''        '' @ str_join ('','' @ CHR 0x0A # ''        '' @ [])
           (map (\<lambda>c. ''tmp.'' @ c) (insert_cols_list order))"
    by (rule indent_terms[OF insert_cols_list_nonempty[OF assms] sub plain_value_term a b])
  then show ?thesis by (simp add: value_cols_def NL_def)
qed

lemma merge_query_layout:
  assumes "iteration_order order"
  shows "merge_query order table_id tmp_table_id =
        NL @ ''        merge '' @ table_id @ '' as old'' @
        NL @ ''        using '' @ tmp_table_id @ '' as tmp'' @
        NL @ ''            on '' @ ''        '' @
               str_join (NL @ ''        and '')
                 (map (\<lambda>c. ''old.'' @ c @ '' = tmp.'' @ c) (merge_keys order)) @
        NL @ ''        when matched then'' @
        NL @ ''            update set'' @
        NL @ ''                '' @ ''        '' @
               str_join ('','' @ NL @ ''        '')
                 (map (\<lambda>c. c @ '' = tmp.'' @ c) (update_cols_list order)) @
        NL @ ''        when not matched then'' @
        NL @ ''            insert ('' @
        NL @ ''                '' @ ''        '' @
               str_join ('','' @ NL @ ''        '') (insert_cols_list order) @
        NL @ ''            )'' @
        NL @ ''            values ('' @
        NL @ ''                '' @ ''        '' @
               str_join ('','' @ NL @ ''        '')
                 (map (\<lambda>c. ''tmp.'' @ c) (insert_cols_list order)) @
        NL @ ''            )'' @
        NL @ ''        ''"
  unfolding merge_query_def indent_join_cols[OF assms] indent_update_cols[OF assms]
    indent_insert_cols[OF assms] indent_value_cols[OF assms]
  by (simp only: append_assoc)

text \<open>\<^verbatim>\<open>sep.join\<close> of a list that is not empty, in terms of the list functions.\<close>

lemma str_join_concat: "str_join sep (x # xs) = x @ concat (map (\<lambda>y. sep @ y) xs)"
  by (induction xs arbitrary: x) simp_all

text \<open>The calls of merge\_tables: none when the table name is refused, two otherwise.\<close>

lemma merge_tables_calls:
  assumes "rejected_table_id wh (project_id c @ ''.'' @ format_member py DATASET @ ''.'' @ format_member py TABLE) = None"
  shows "\<exists>sch. calls (snd (merge_tables py order wh tmp c)) =
     calls c @ [CreateTable (project_id c @ ''.'' @ format_member py DATASET @ ''.'' @ format_member py TABLE) sch,
                Query (merge_query order (project_id c @ ''.'' @ format_member py DATASET @ ''.'' @ format_member py TABLE) tmp)]"
proof -
  from schema_to_bq_REDDITADS_SCHEMA obtain sch where sch: "schema_to_bq REDDITADS_SCHEMA = Inr sch" ..
  obtain outcome ts where q: "query_job wh
      (merge_query order (project_id c @ ''.'' @ format_member py DATASET @ ''.'' @ format_member py TABLE) tmp)
      (tables (create_table (project_id c @ ''.'' @ format_member py DATASET @ ''.'' @ format_member py TABLE) sch c)) = (outcome, ts)"
    by (rule prod.exhaust)
  from merge_tables_eq[OF sch refl assms q] show ?thesis by simp
qed

lemma merge_tables_rejected:
  assumes "rejected_table_id wh (project_id c @ ''.'' @ format_member py DATASET @ ''.'' @ format_member py TABLE) = Some msg"
  shows "merge_tables py order wh tmp c = (Inl (ValueError msg), c)"
proof -
  from schema_to_bq_REDDITADS_SCHEMA obtain sch where sch: "schema_to_bq REDDITADS_SCHEMA = Inr sch" ..
  with assms show ?thesis by (simp add: merge_tables_def ensure_table_def Let_def)
qed

lemma merge_query_text:
  assumes "iteration_order order"
    and "merge_keys order = k # K"
    and "update_cols_list order = u # U"
    and "insert_cols_list order = i # I"
  shows "merge_query order table_id tmp_table_id =
        [CHR 0x0A] @ ''        merge '' @ table_id @ '' as old'' @
        [CHR 0x0A] @ ''        using '' @ tmp_table_id @ '' as tmp'' @
        [CHR 0x0A] @ ''            on         old.'' @ k @ '' = tmp.'' @ k @
          concat (map (\<lambda>c. [CHR 0x0A] @ ''        and old.'' @ c @ '' = tmp.'' @ c) K) @
        [CHR 0x0A] @ ''        when matched then'' @
        [CHR 0x0A] @ ''            update set'' @
        [CHR 0x0A] @ ''                        '' @ u @ '' = tmp.'' @ u @
          concat (map (\<lambda>c. '','' @ [CHR 0x0A] @ ''        '' @ c @ '' = tmp.'' @ c) U) @
        [CHR 0x0A] @ ''        when not matched then'' @
        [CHR 0x0A] @ ''            insert ('' @
        [CHR 0x0A] @ ''                        '' @ i @
          concat (map (\<lambda>c. '','' @ [CHR 0x0A] @ ''        '' @ c) I) @
        [CHR 0x0A] @ ''            )'' @
        [CHR 0x0A] @ ''            values ('' @
        [CHR 0x0A] @ ''                        tmp.'' @ i @
          concat (map (\<lambda>c. '','' @ [CHR 0x0A] @ ''        tmp.'' @ c) I) @
        [CHR 0x0A] @ ''            )'' @
        [CHR 0x0A] @ ''        ''"
  unfolding merge_query_layout[OF assms(1)] assms(2,3,4)
  by (simp add: str_join_concat NL_def comp_def)

text \<open>
  C2. For every iteration order of the sets, the statement that \<^verbatim>\<open>merge_tables\<close>
  builds is the text below, where \<open>k # K\<close> are exactly the five columns of the merge key,
  \<open>u # U\<close> exactly the declared columns that are not in the key, and \<open>i # I\<close> exactly
  the declared columns, each once: the \<^verbatim>\<open>on\<close> condition equates the key columns of
  \<^verbatim>\<open>old\<close> and \<^verbatim>\<open>tmp\<close> and nothing else, the update sets the columns
  \<open>u # U\<close>, and the insert lists the columns \<open>i # I\<close> and their values from
  \<^verbatim>\<open>tmp\<close> in the same order. \<^verbatim>\<open>merge_tables\<close> sends it as its one query, after
  the call that creates the destination table; when the client library refuses the name of
  the destination table, it raises that \<^verbatim>\<open>ValueError\<close> and sends nothing.
\<close>

theorem merge_tables_statement:
  assumes "iteration_order order"
  shows "\<exists>k K u U i I.
      set (k # K) = {''date'', ''ad_id'', ''ad_group_id'', ''account_id'', ''campaign_id''}
    \<and> distinct (k # K)
    \<and> set (u # U) = set (map fst REDDITADS_SCHEMA) - set (k # K) \<and> distinct (u # U)
    \<and> set (i # I) = set (map fst REDDITADS_SCHEMA) \<and> distinct (i # I)
    \<and> merge_query order table_id tmp_table_id =
        [CHR 0x0A] @ ''        merge '' @ table_id @ '' as old'' @
        [CHR 0x0A] @ ''        using '' @ tmp_table_id @ '' as tmp'' @
        [CHR 0x0A] @ ''            on         old.'' @ k @ '' = tmp.'' @ k @
          concat (map (\<lambda>c. [CHR 0x0A] @ ''        and old.'' @ c @ '' = tmp.'' @ c) K) @
        [CHR 0x0A] @ ''        when matched then'' @
        [CHR 0x0A] @ ''            update set'' @
        [CHR 0x0A] @ ''                        '' @ u @ '' = tmp.'' @ u @
          concat (map (\<lambda>c. '','' @ [CHR 0x0A] @ ''        '' @ c @ '' = tmp.'' @ c) U) @
        [CHR 0x0A] @ ''        when not matched then'' @
        [CHR 0x0A] @ ''            insert ('' @
        [CHR 0x0A] @ ''                        '' @ i @
          concat (map (\<lambda>c. '','' @ [CHR 0x0A] @ ''        '' @ c) I) @
        [CHR 0x0A] @ ''            )'' @
        [CHR 0x0A] @ ''            values ('' @
        [CHR 0x0A] @ ''                        tmp.'' @ i @
          concat (map (\<lambda>c. '','' @ [CHR 0x0A] @ ''        tmp.'' @ c) I) @
        [CHR 0x0A] @ ''            )'' @
        [CHR 0x0A] @ ''        ''
    \<and> (case rejected_table_id wh (project_id c @ ''.'' @ format_member py DATASET @ ''.'' @ format_member py TABLE) of
         None \<Rightarrow>
           \<exists>sch. calls (snd (merge_tables py order wh tmp_table_id c)) =
             calls c @ [CreateTable (project_id c @ ''.'' @ format_member py DATASET @ ''.'' @ format_member py TABLE) sch,
                        Query (merge_query order (project_id c @ ''.'' @ format_member py DATASET @ ''.'' @ format_member py TABLE) tmp_table_id)]
       | Some msg \<Rightarrow> merge_tables py order wh tmp_table_id c = (Inl (ValueError msg), c))"
proof -
  obtain k K where K: "merge_keys order = k # K"
    using merge_keys_nonempty[OF assms] by (cases "merge_keys order") simp_all
  obtain u U where U: "update_cols_list order = u # U"
    using update_cols_list_nonempty[OF assms] by (cases "update_cols_list order") simp_all
  obtain i I where I: "insert_cols_list order = i # I"
    using insert_cols_list_nonempty[OF assms] by (cases "insert_cols_list order") simp_all
  have calls: "(case rejected_table_id wh (project_id c @ ''.'' @ format_member py DATASET @ ''.'' @ format_member py TABLE) of
         None \<Rightarrow>
           \<exists>sch. calls (snd (merge_tables py order wh tmp_table_id c)) =
             calls c @ [CreateTable (project_id c @ ''.'' @ format_member py DATASET @ ''.'' @ format_member py TABLE) sch,
                        Query (merge_query order (project_id c @ ''.'' @ format_member py DATASET @ ''.'' @ format_member py TABLE) tmp_table_id)]
       | Some msg \<Rightarrow> merge_tables py order wh tmp_table_id c = (Inl (ValueError msg), c))"
  proof (cases "rejected_table_id wh (project_id c @ ''.'' @ format_member py DATASET @ ''.'' @ format_member py TABLE)")
    case None
    from merge_tables_calls[OF None, of order tmp_table_id] None show ?thesis
      by (simp only: option.case)
  next
    case (Some msg)
    from merge_tables_rejected[OF Some, of order tmp_table_id] Some show ?thesis
      by (simp only: option.case)
  qed
  show ?thesis
  proof (rule exI[of _ k], rule exI[of _ K], rule exI[of _ u], rule exI[of _ U],
         rule exI[of _ i], rule exI[of _ I], intro conjI)
    show "set (k # K) = {''date'', ''ad_id'', ''ad_group_id'', ''account_id'', ''campaign_id''}"
      unfolding K[symmetric] by (rule set_merge_keys(1)[OF assms])
    show "distinct (k # K)" unfolding K[symmetric] by (rule set_merge_keys(2)[OF assms])
    show "set (u # U) = set (map fst REDDITADS_SCHEMA) - set (k # K)"
      unfolding K[symmetric] U[symmetric] set_merge_keys(1)[OF assms]
      by (rule set_update_cols_list(1)[OF assms])
    show "distinct (u # U)" unfolding U[symmetric] by (rule set_update_cols_list(2)[OF assms])
    show "set (i # I) = set (map fst REDDITADS_SCHEMA)"
      unfolding I[symmetric] by (rule set_insert_cols_list(1)[OF assms])
    show "distinct (i # I)" unfolding I[symmetric] by (rule set_insert_cols_list(2)[OF assms])
    show "merge_query order table_id tmp_table_id =
        [CHR 0x0A] @ ''        merge '' @ table_id @ '' as old'' @
        [CHR 0x0A] @ ''        using '' @ tmp_table_id @ '' as tmp'' @
        [CHR 0x0A] @ ''            on         old.'' @ k @ '' = tmp.'' @ k @
          concat (map (\<lambda>c. [CHR 0x0A] @ ''        and old.'' @ c @ '' = tmp.'' @ c) K) @
        [CHR 0x0A] @ ''        when matched then'' @
        [CHR 0x0A] @ ''            update set'' @
        [CHR 0x0A] @ ''                        '' @ u @ '' = tmp.'' @ u @
          concat (map (\<lambda>c. '','' @ [CHR 0x0A] @ ''        '' @ c @ '' = tmp.'' @ c) U) @
        [CHR 0x0A] @ ''        when not matched then'' @
        [CHR 0x0A] @ ''            insert ('' @
        [CHR 0x0A] @ ''                        '' @ i @
          concat (map (\<lambda>c. '','' @ [CHR 0x0A] @ ''        '' @ c) I) @
        [CHR 0x0A] @ ''            )'' @
        [CHR 0x0A] @ ''            values ('' @
        [CHR 0x0A] @ ''                        tmp.'' @ i @
          concat (map (\<lambda>c. '','' @ [CHR 0x0A] @ ''        tmp.'' @ c) I) @
        [CHR 0x0A] @ ''            )'' @
        [CHR 0x0A] @ ''        ''"
      by (rule merge_query_text[OF assms K U I])
    show "(case rejected_table_id wh (project_id c @ ''.'' @ format_member py DATASET @ ''.'' @ format_member py TABLE) of
         None \<Rightarrow>
           \<exists>sch. calls (snd (merge_tables py order wh tmp_table_id c)) =
             calls c @ [CreateTable (project_id c @ ''.'' @ format_member py DATASET @ ''.'' @ format_member py TABLE) sch,
                        Query (merge_query order (project_id c @ ''.'' @ format_member py DATASET @ ''.'' @ format_member py TABLE) tmp_table_id)]
       | Some msg \<Rightarrow> merge_tables py order wh tmp_table_id c = (Inl (ValueError msg), c))" by (rule calls)
  qed
qed

lemma iteration_order_remdups: "iteration_order remdups"
  by (simp add: iteration_order_def)

text \<open>The column lists when the sets are iterated in the order of insertion.\<close>

lemma merge_keys_remdups:
  "merge_keys remdups =
       [''date'', ''ad_id'', ''ad_group_id'', ''account_id'', ''campaign_id'']"
  by (simp add: merge_keys_def)

lemma insert_cols_list_remdups:
  "insert_cols_list remdups =
       [''spend'', ''video_watched_50_percent'', ''video_watched_75_percent'', ''ecpm'',
        ''video_viewable_impressions'', ''date'', ''ctr'', ''impressions'',
        ''video_watched_3_seconds'', ''cpc'', ''video_watched_100_percent'',
        ''video_started'', ''video_plays_with_sound'', ''ad_id'', ''clicks'',
        ''video_fully_viewable_impressions'', ''video_plays_expanded'',
        ''video_watched_95_percent'', ''video_watched_10_seconds'',
        ''video_watched_25_percent'', ''page_visit'', ''view_content'', ''search'',
        ''add_to_cart'', ''add_to_wishlist'', ''purchase'', ''lead'', ''sign_up'',
        ''custom'', ''ad_group_id'', ''ad_name'', ''account_id'', ''campaign_id'',
        ''ad_group_name'', ''campaign_name'']"
  by (simp add: insert_cols_list_def REDDITADS_SCHEMA_def)

lemma update_cols_list_remdups:
  "update_cols_list remdups =
       [''spend'', ''video_watched_50_percent'', ''video_watched_75_percent'', ''ecpm'',
        ''video_viewable_impressions'', ''ctr'', ''impressions'',
        ''video_watched_3_seconds'', ''cpc'', ''video_watched_100_percent'',
        ''video_started'', ''video_plays_with_sound'', ''clicks'',
        ''video_fully_viewable_impressions'', ''video_plays_expanded'',
        ''video_watched_95_percent'', ''video_watched_10_seconds'',
        ''video_watched_25_percent'', ''page_visit'', ''view_content'', ''search'',
        ''add_to_cart'', ''add_to_wishlist'', ''purchase'', ''lead'', ''sign_up'',
        ''custom'', ''ad_name'', ''ad_group_name'', ''campaign_name'']"
  by (simp add: update_cols_list_def merge_keys_remdups insert_cols_list_remdups)

lemma merge_query_remdups:
  "merge_query remdups ''p.reddit.redditads'' ''p.reddit.redditads_tmp'' =
        [CHR 0x0A] @
        ''        merge p.reddit.redditads as old'' @ [CHR 0x0A] @
        ''        using p.reddit.redditads_tmp as tmp'' @ [CHR 0x0A] @
        ''            on         old.date = tmp.date'' @ [CHR 0x0A] @
        ''        and old.ad_id = tmp.ad_id'' @ [CHR 0x0A] @
        ''        and old.ad_group_id = tmp.ad_group_id'' @ [CHR 0x0A] @
        ''        and old.account_id = tmp.account_id'' @ [CHR 0x0A] @
        ''        and old.campaign_id = tmp.campaign_id'' @ [CHR 0x0A] @
        ''        when matched then'' @ [CHR 0x0A] @
        ''            update set'' @ [CHR 0x0A] @
        ''                        spend = tmp.spend,'' @ [CHR 0x0A] @
        ''        video_watched_50_percent = tmp.video_watched_50_percent,'' @ [CHR 0x0A] @
        ''        video_watched_75_percent = tmp.video_watched_75_percent,'' @ [CHR 0x0A] @
        ''        ecpm = tmp.ecpm,'' @ [CHR 0x0A] @
        ''        video_viewable_impressions = tmp.video_viewable_impressions,'' @ [CHR 0x0A] @
        ''        ctr = tmp.ctr,'' @ [CHR 0x0A] @
        ''        impressions = tmp.impressions,'' @ [CHR 0x0A] @
        ''        video_watched_3_seconds = tmp.video_watched_3_seconds,'' @ [CHR 0x0A] @
        ''        cpc = tmp.cpc,'' @ [CHR 0x0A] @
        ''        video_watched_100_percent = tmp.video_watched_100_percent,'' @ [CHR 0x0A] @
        ''        video_started = tmp.video_started,'' @ [CHR 0x0A] @
        ''        video_plays_with_sound = tmp.video_plays_with_sound,'' @ [CHR 0x0A] @
        ''        clicks = tmp.clicks,'' @ [CHR 0x0A] @
        ''        video_fully_viewable_impressions = tmp.video_fully_viewable_impressions,'' @ [CHR 0x0A] @
        ''        video_plays_expanded = tmp.video_plays_expanded,'' @ [CHR 0x0A] @
        ''        video_watched_95_percent = tmp.video_watched_95_percent,'' @ [CHR 0x0A] @
        ''        video_watched_10_seconds = tmp.video_watched_10_seconds,'' @ [CHR 0x0A] @
        ''        video_watched_25_percent = tmp.video_watched_25_percent,'' @ [CHR 0x0A] @
        ''        page_visit = tmp.page_visit,'' @ [CHR 0x0A] @
        ''        view_content = tmp.view_content,'' @ [CHR 0x0A] @
        ''        search = tmp.search,'' @ [CHR 0x0A] @
        ''        add_to_cart = tmp.add_to_cart,'' @ [CHR 0x0A] @
        ''        add_to_wishlist = tmp.add_to_wishlist,'' @ [CHR 0x0A] @
        ''        purchase = tmp.purchase,'' @ [CHR 0x0A] @
        ''        lead = tmp.lead,'' @ [CHR 0x0A] @
        ''        sign_up = tmp.sign_up,'' @ [CHR 0x0A] @
        ''        custom = tmp.custom,'' @ [CHR 0x0A] @
        ''        ad_name = tmp.ad_name,'' @ [CHR 0x0A] @
        ''        ad_group_name = tmp.ad_group_name,'' @ [CHR 0x0A] @
        ''        campaign_name = tmp.campaign_name'' @ [CHR 0x0A] @
        ''        when not matched then'' @ [CHR 0x0A] @
        ''            insert ('' @ [CHR 0x0A] @
        ''                        spend,'' @ [CHR 0x0A] @
        ''        video_watched_50_percent,'' @ [CHR 0x0A] @
        ''        video_watched_75_percent,'' @ [CHR 0x0A] @
        ''        ecpm,'' @ [CHR 0x0A] @
        ''        video_viewable_impressions,'' @ [CHR 0x0A] @
        ''        date,'' @ [CHR 0x0A] @
        ''        ctr,'' @ [CHR 0x0A] @
        ''        impressions,'' @ [CHR 0x0A] @
        ''        video_watched_3_seconds,'' @ [CHR 0x0A] @
        ''        cpc,'' @ [CHR 0x0A] @
        ''        video_watched_100_percent,'' @ [CHR 0x0A] @
        ''        video_started,'' @ [CHR 0x0A] @
        ''        video_plays_with_sound,'' @ [CHR 0x0A] @
        ''        ad_id,'' @ [CHR 0x0A] @
        ''        clicks,'' @ [CHR 0x0A] @
        ''        video_fully_viewable_impressions,'' @ [CHR 0x0A] @
        ''        video_plays_expanded,'' @ [CHR 0x0A] @
        ''        video_watched_95_percent,'' @ [CHR 0x0A] @
        ''        video_watched_10_seconds,'' @ [CHR 0x0A] @
        ''        video_watched_25_percent,'' @ [CHR 0x0A] @
        ''        page_visit,'' @ [CHR 0x0A] @
        ''        view_content,'' @ [CHR 0x0A] @
        ''        search,'' @ [CHR 0x0A] @
        ''        add_to_cart,'' @ [CHR 0x0A] @
        ''        add_to_wishlist,'' @ [CHR 0x0A] @
        ''        purchase,'' @ [CHR 0x0A] @
        ''        lead,'' @ [CHR 0x0A] @
        ''        sign_up,'' @ [CHR 0x0A] @
        ''        custom,'' @ [CHR 0x0A] @
        ''        ad_group_id,'' @ [CHR 0x0A] @
        ''        ad_name,'' @ [CHR 0x0A] @
        ''        account_id,'' @ [CHR 0x0A] @
        ''        campaign_id,'' @ [CHR 0x0A] @
        ''        ad_group_name,'' @ [CHR 0x0A] @
        ''        campaign_name'' @ [CHR 0x0A] @
        ''            )'' @ [CHR 0x0A] @
        ''            values ('' @ [CHR 0x0A] @
        ''                        tmp.spend,'' @ [CHR 0x0A] @
        ''        tmp.video_watched_50_percent,'' @ [CHR 0x0A] @
        ''        tmp.video_watched_75_percent,'' @ [CHR 0x0A] @
        ''        tmp.ecpm,'' @ [CHR 0x0A] @
        ''        tmp.video_viewable_impressions,'' @ [CHR 0x0A] @
        ''        tmp.date,'' @ [CHR 0x0A] @
        ''        tmp.ctr,'' @ [CHR 0x0A] @
        ''        tmp.impressions,'' @ [CHR 0x0A] @
        ''        tmp.video_watched_3_seconds,'' @ [CHR 0x0A] @
        ''        tmp.cpc,'' @ [CHR 0x0A] @
        ''        tmp.video_watched_100_percent,'' @ [CHR 0x0A] @
        ''        tmp.video_started,'' @ [CHR 0x0A] @
        ''        tmp.video_plays_with_sound,'' @ [CHR 0x0A] @
        ''        tmp.ad_id,'' @ [CHR 0x0A] @
        ''        tmp.clicks,'' @ [CHR 0x0A] @
        ''        tmp.video_fully_viewable_impressions,'' @ [CHR 0x0A] @
        ''        tmp.video_plays_expanded,'' @ [CHR 0x0A] @
        ''        tmp.video_watched_95_percent,'' @ [CHR 0x0A] @
        ''        tmp.video_watched_10_seconds,'' @ [CHR 0x0A] @
        ''        tmp.video_watched_25_percent,'' @ [CHR 0x0A] @
        ''        tmp.page_visit,'' @ [CHR 0x0A] @
        ''        tmp.view_content,'' @ [CHR 0x0A] @
        ''        tmp.search,'' @ [CHR 0x0A] @
        ''        tmp.add_to_cart,'' @ [CHR 0x0A] @
        ''        tmp.add_to_wishlist,'' @ [CHR 0x0A] @
        ''        tmp.purchase,'' @ [CHR 0x0A] @
        ''        tmp.lead,'' @ [CHR 0x0A] @
        ''        tmp.sign_up,'' @ [CHR 0x0A] @
        ''        tmp.custom,'' @ [CHR 0x0A] @
        ''        tmp.ad_group_id,'' @ [CHR 0x0A] @
        ''        tmp.ad_name,'' @ [CHR 0x0A] @
        ''        tmp.account_id,'' @ [CHR 0x0A] @
        ''        tmp.campaign_id,'' @ [CHR 0x0A] @
        ''        tmp.ad_group_name,'' @ [CHR 0x0A] @
        ''        tmp.campaign_name'' @ [CHR 0x0A] @
        ''            )'' @ [CHR 0x0A] @
        ''        ''"
  unfolding merge_query_layout[OF iteration_order_remdups] merge_keys_remdups
    insert_cols_list_remdups update_cols_list_remdups
  by (simp add: NL_def)

text \<open>
  C2 at the iteration order of insertion, for the tables of project \<^verbatim>\<open>p\<close>: the whole
  statement, and the two calls that \<^verbatim>\<open>merge_tables\<close> sends.
\<close>

theorem merge_tables_statement_witness:
  "iteration_order remdups
   \<and> merge_query remdups ''p.reddit.redditads'' ''p.reddit.redditads_tmp'' =
        [CHR 0x0A] @
        ''        merge p.reddit.redditads as old'' @ [CHR 0x0A] @
        ''        using p.reddit.redditads_tmp as tmp'' @ [CHR 0x0A] @
        ''            on         old.date = tmp.date'' @ [CHR 0x0A] @
        ''        and old.ad_id = tmp.ad_id'' @ [CHR 0x0A] @
        ''        and old.ad_group_id = tmp.ad_group_id'' @ [CHR 0x0A] @
        ''        and old.account_id = tmp.account_id'' @ [CHR 0x0A] @
        ''        and old.campaign_id = tmp.campaign_id'' @ [CHR 0x0A] @
        ''        when matched then'' @ [CHR 0x0A] @
        ''            update set'' @ [CHR 0x0A] @
        ''                        spend = tmp.spend,'' @ [CHR 0x0A] @
        ''        video_watched_50_percent = tmp.video_watched_50_percent,'' @ [CHR 0x0A] @
        ''        video_watched_75_percent = tmp.video_watched_75_percent,'' @ [CHR 0x0A] @
        ''        ecpm = tmp.ecpm,'' @ [CHR 0x0A] @
        ''        video_viewable_impressions = tmp.video_viewable_impressions,'' @ [CHR 0x0A] @
        ''        ctr = tmp.ctr,'' @ [CHR 0x0A] @
        ''        impressions = tmp.impressions,'' @ [CHR 0x0A] @
        ''        video_watched_3_seconds = tmp.video_watched_3_seconds,'' @ [CHR 0x0A] @
        ''        cpc = tmp.cpc,'' @ [CHR 0x0A] @
        ''        video_watched_100_percent = tmp.video_watched_100_percent,'' @ [CHR 0x0A] @
        ''        video_started = tmp.video_started,'' @ [CHR 0x0A] @
        ''        video_plays_with_sound = tmp.video_plays_with_sound,'' @ [CHR 0x0A] @
        ''        clicks = tmp.clicks,'' @ [CHR 0x0A] @
        ''        video_fully_viewable_impressions = tmp.video_fully_viewable_impressions,'' @ [CHR 0x0A] @
        ''        video_plays_expanded = tmp.video_plays_expanded,'' @ [CHR 0x0A] @
        ''        video_watched_95_percent = tmp.video_watched_95_percent,'' @ [CHR 0x0A] @
        ''        video_watched_10_seconds = tmp.video_watched_10_seconds,'' @ [CHR 0x0A] @
        ''        video_watched_25_percent = tmp.video_watched_25_percent,'' @ [CHR 0x0A] @
        ''        page_visit = tmp.page_visit,'' @ [CHR 0x0A] @
        ''        view_content = tmp.view_content,'' @ [CHR 0x0A] @
        ''        search = tmp.search,'' @ [CHR 0x0A] @
        ''        add_to_cart = tmp.add_to_cart,'' @ [CHR 0x0A] @
        ''        add_to_wishlist = tmp.add_to_wishlist,'' @ [CHR 0x0A] @
        ''        purchase = tmp.purchase,'' @ [CHR 0x0A] @
        ''        lead = tmp.lead,'' @ [CHR 0x0A] @
        ''        sign_up = tmp.sign_up,'' @ [CHR 0x0A] @
        ''        custom = tmp.custom,'' @ [CHR 0x0A] @
        ''        ad_name = tmp.ad_name,'' @ [CHR 0x0A] @
        ''        ad_group_name = tmp.ad_group_name,'' @ [CHR 0x0A] @
        ''        campaign_name = tmp.campaign_name'' @ [CHR 0x0A] @
        ''        when not matched then'' @ [CHR 0x0A] @
        ''            insert ('' @ [CHR 0x0A] @
        ''                        spend,'' @ [CHR 0x0A] @
        ''        video_watched_50_percent,'' @ [CHR 0x0A] @
        ''        video_watched_75_percent,'' @ [CHR 0x0A] @
        ''        ecpm,'' @ [CHR 0x0A] @
        ''        video_viewable_impressions,'' @ [CHR 0x0A] @
        ''        date,'' @ [CHR 0x0A] @
        ''        ctr,'' @ [CHR 0x0A] @
        ''        impressions,'' @ [CHR 0x0A] @
        ''        video_watched_3_seconds,'' @ [CHR 0x0A] @
        ''        cpc,'' @ [CHR 0x0A] @
        ''        video_watched_100_percent,'' @ [CHR 0x0A] @
        ''        video_started,'' @ [CHR 0x0A] @
        ''        video_plays_with_sound,'' @ [CHR 0x0A] @
        ''        ad_id,'' @ [CHR 0x0A] @
        ''        clicks,'' @ [CHR 0x0A] @
        ''        video_fully_viewable_impressions,'' @ [CHR 0x0A] @
        ''        video_plays_expanded,'' @ [CHR 0x0A] @
        ''        video_watched_95_percent,'' @ [CHR 0x0A] @
        ''        video_watched_10_seconds,'' @ [CHR 0x0A] @
        ''        video_watched_25_percent,'' @ [CHR 0x0A] @
        ''        page_visit,'' @ [CHR 0x0A] @
        ''        view_content,'' @ [CHR 0x0A] @
        ''        search,'' @ [CHR 0x0A] @
        ''        add_to_cart,'' @ [CHR 0x0A] @
        ''        add_to_wishlist,'' @ [CHR 0x0A] @
        ''        purchase,'' @ [CHR 0x0A] @
        ''        lead,'' @ [CHR 0x0A] @
        ''        sign_up,'' @ [CHR 0x0A] @
        ''        custom,'' @ [CHR 0x0A] @
        ''        ad_group_id,'' @ [CHR 0x0A] @
        ''        ad_name,'' @ [CHR 0x0A] @
        ''        account_id,'' @ [CHR 0x0A] @
        ''        campaign_id,'' @ [CHR 0x0A] @
        ''        ad_group_name,'' @ [CHR 0x0A] @
        ''        campaign_name'' @ [CHR 0x0A] @
        ''            )'' @ [CHR 0x0A] @
        ''            values ('' @ [CHR 0x0A] @
        ''                        tmp.spend,'' @ [CHR 0x0A] @
        ''        tmp.video_watched_50_percent,'' @ [CHR 0x0A] @
        ''        tmp.video_watched_75_percent,'' @ [CHR 0x0A] @
        ''        tmp.ecpm,'' @ [CHR 0x0A] @
        ''        tmp.video_viewable_impressions,'' @ [CHR 0x0A] @
        ''        tmp.date,'' @ [CHR 0x0A] @
        ''        tmp.ctr,'' @ [CHR 0x0A] @
        ''        tmp.impressions,'' @ [CHR 0x0A] @
        ''        tmp.video_watched_3_seconds,'' @ [CHR 0x0A] @
        ''        tmp.cpc,'' @ [CHR 0x0A] @
        ''        tmp.video_watched_100_percent,'' @ [CHR 0x0A] @
        ''        tmp.video_started,'' @ [CHR 0x0A] @
        ''        tmp.video_plays_with_sound,'' @ [CHR 0x0A] @
        ''        tmp.ad_id,'' @ [CHR 0x0A] @
        ''        tmp.clicks,'' @ [CHR 0x0A] @
        ''        tmp.video_fully_viewable_impressions,'' @ [CHR 0x0A] @
        ''        tmp.video_plays_expanded,'' @ [CHR 0x0A] @
        ''        tmp.video_watched_95_percent,'' @ [CHR 0x0A] @
        ''        tmp.video_watched_10_seconds,'' @ [CHR 0x0A] @
        ''        tmp.video_watched_25_percent,'' @ [CHR 0x0A] @
        ''        tmp.page_visit,'' @ [CHR 0x0A] @
        ''        tmp.view_content,'' @ [CHR 0x0A] @
        ''        tmp.search,'' @ [CHR 0x0A] @
        ''        tmp.add_to_cart,'' @ [CHR 0x0A] @
        ''        tmp.add_to_wishlist,'' @ [CHR 0x0A] @
        ''        tmp.purchase,'' @ [CHR 0x0A] @
        ''        tmp.lead,'' @ [CHR 0x0A] @
        ''        tmp.sign_up,'' @ [CHR 0x0A] @
        ''        tmp.custom,'' @ [CHR 0x0A] @
        ''        tmp.ad_group_id,'' @ [CHR 0x0A] @
        ''        tmp.ad_name,'' @ [CHR 0x0A] @
        ''        tmp.account_id,'' @ [CHR 0x0A] @
        ''        tmp.campaign_id,'' @ [CHR 0x0A] @
        ''        tmp.ad_group_name,'' @ [CHR 0x0A] @
        ''        tmp.campaign_name'' @ [CHR 0x0A] @
        ''            )'' @ [CHR 0x0A] @
        ''        ''
   \<and> (\<exists>sch. calls (snd (merge_tables Before_3_11 remdups merging_warehouse
                          ''p.reddit.redditads_tmp'' example_client)) =
          [CreateTable ''p.reddit.redditads'' sch,
           Query (merge_query remdups ''p.reddit.redditads'' ''p.reddit.redditads_tmp'')])"
proof (intro conjI)
  show "iteration_order remdups" by (rule iteration_order_remdups)
  show "merge_query remdups ''p.reddit.redditads'' ''p.reddit.redditads_tmp'' =
        [CHR 0x0A] @
        ''        merge p.reddit.redditads as old'' @ [CHR 0x0A] @
        ''        using p.reddit.redditads_tmp as tmp'' @ [CHR 0x0A] @
        ''            on         old.date = tmp.date'' @ [CHR 0x0A] @
        ''        and old.ad_id = tmp.ad_id'' @ [CHR 0x0A] @
        ''        and old.ad_group_id = tmp.ad_group_id'' @ [CHR 0x0A] @
        ''        and old.account_id = tmp.account_id'' @ [CHR 0x0A] @
        ''        and old.campaign_id = tmp.campaign_id'' @ [CHR 0x0A] @
        ''        when matched then'' @ [CHR 0x0A] @
        ''            update set'' @ [CHR 0x0A] @
        ''                        spend = tmp.spend,'' @ [CHR 0x0A] @
        ''        video_watched_50_percent = tmp.video_watched_50_percent,'' @ [CHR 0x0A] @
        ''        video_watched_75_percent = tmp.video_watched_75_percent,'' @ [CHR 0x0A] @
        ''        ecpm = tmp.ecpm,'' @ [CHR 0x0A] @
        ''        video_viewable_impressions = tmp.video_viewable_impressions,'' @ [CHR 0x0A] @
        ''        ctr = tmp.ctr,'' @ [CHR 0x0A] @
        ''        impressions = tmp.impressions,'' @ [CHR 0x0A] @
        ''        video_watched_3_seconds = tmp.video_watched_3_seconds,'' @ [CHR 0x0A] @
        ''        cpc = tmp.cpc,'' @ [CHR 0x0A] @
        ''        video_watched_100_percent = tmp.video_watched_100_percent,'' @ [CHR 0x0A] @
        ''        video_started = tmp.video_started,'' @ [CHR 0x0A] @
        ''        video_plays_with_sound = tmp.video_plays_with_sound,'' @ [CHR 0x0A] @
        ''        clicks = tmp.clicks,'' @ [CHR 0x0A] @
        ''        video_fully_viewable_impressions = tmp.video_fully_viewable_impressions,'' @ [CHR 0x0A] @
        ''        video_plays_expanded = tmp.video_plays_expanded,'' @ [CHR 0x0A] @
        ''        video_watched_95_percent = tmp.video_watched_95_percent,'' @ [CHR 0x0A] @
        ''        video_watched_10_seconds = tmp.video_watched_10_seconds,'' @ [CHR 0x0A] @
        ''        video_watched_25_percent = tmp.video_watched_25_percent,'' @ [CHR 0x0A] @
        ''        page_visit = tmp.page_visit,'' @ [CHR 0x0A] @
        ''        view_content = tmp.view_content,'' @ [CHR 0x0A] @
        ''        search = tmp.search,'' @ [CHR 0x0A] @
        ''        add_to_cart = tmp.add_to_cart,'' @ [CHR 0x0A] @
        ''        add_to_wishlist = tmp.add_to_wishlist,'' @ [CHR 0x0A] @
        ''        purchase = tmp.purchase,'' @ [CHR 0x0A] @
        ''        lead = tmp.lead,'' @ [CHR 0x0A] @
        ''        sign_up = tmp.sign_up,'' @ [CHR 0x0A] @
        ''        custom = tmp.custom,'' @ [CHR 0x0A] @
        ''        ad_name = tmp.ad_name,'' @ [CHR 0x0A] @
        ''        ad_group_name = tmp.ad_group_name,'' @ [CHR 0x0A] @
        ''        campaign_name = tmp.campaign_name'' @ [CHR 0x0A] @
        ''        when not matched then'' @ [CHR 0x0A] @
        ''            insert ('' @ [CHR 0x0A] @
        ''                        spend,'' @ [CHR 0x0A] @
        ''        video_watched_50_percent,'' @ [CHR 0x0A] @
        ''        video_watched_75_percent,'' @ [CHR 0x0A] @
        ''        ecpm,'' @ [CHR 0x0A] @
        ''        video_viewable_impressions,'' @ [CHR 0x0A] @
        ''        date,'' @ [CHR 0x0A] @
        ''        ctr,'' @ [CHR 0x0A] @
        ''        impressions,'' @ [CHR 0x0A] @
        ''        video_watched_3_seconds,'' @ [CHR 0x0A] @
        ''        cpc,'' @ [CHR 0x0A] @
        ''        video_watched_100_percent,'' @ [CHR 0x0A] @
        ''        video_started,'' @ [CHR 0x0A] @
        ''        video_plays_with_sound,'' @ [CHR 0x0A] @
        ''        ad_id,'' @ [CHR 0x0A] @
        ''        clicks,'' @ [CHR 0x0A] @
        ''        video_fully_viewable_impressions,'' @ [CHR 0x0A] @
        ''        video_plays_expanded,'' @ [CHR 0x0A] @
        ''        video_watched_95_percent,'' @ [CHR 0x0A] @
        ''        video_watched_10_seconds,'' @ [CHR 0x0A] @
        ''        video_watched_25_percent,'' @ [CHR 0x0A] @
        ''        page_visit,'' @ [CHR 0x0A] @
        ''        view_content,'' @ [CHR 0x0A] @
        ''        search,'' @ [CHR 0x0A] @
        ''        add_to_cart,'' @ [CHR 0x0A] @
        ''        add_to_wishlist,'' @ [CHR 0x0A] @
        ''        purchase,'' @ [CHR 0x0A] @
        ''        lead,'' @ [CHR 0x0A] @
        ''        sign_up,'' @ [CHR 0x0A] @
        ''        custom,'' @ [CHR 0x0A] @
        ''        ad_group_id,'' @ [CHR 0x0A] @
        ''        ad_name,'' @ [CHR 0x0A] @
        ''        account_id,'' @ [CHR 0x0A] @
        ''        campaign_id,'' @ [CHR 0x0A] @
        ''        ad_group_name,'' @ [CHR 0x0A] @
        ''        campaign_name'' @ [CHR 0x0A] @
        ''            )'' @ [CHR 0x0A] @
        ''            values ('' @ [CHR 0x0A] @
        ''                        tmp.spend,'' @ [CHR 0x0A] @
        ''        tmp.video_watched_50_percent,'' @ [CHR 0x0A] @
        ''        tmp.video_watched_75_percent,'' @ [CHR 0x0A] @
        ''        tmp.ecpm,'' @ [CHR 0x0A] @
        ''        tmp.video_viewable_impressions,'' @ [CHR 0x0A] @
        ''        tmp.date,'' @ [CHR 0x0A] @
        ''        tmp.ctr,'' @ [CHR 0x0A] @
        ''        tmp.impressions,'' @ [CHR 0x0A] @
        ''        tmp.video_watched_3_seconds,'' @ [CHR 0x0A] @
        ''        tmp.cpc,'' @ [CHR 0x0A] @
        ''        tmp.video_watched_100_percent,'' @ [CHR 0x0A] @
        ''        tmp.video_started,'' @ [CHR 0x0A] @
        ''        tmp.video_plays_with_sound,'' @ [CHR 0x0A] @
        ''        tmp.ad_id,'' @ [CHR 0x0A] @
        ''        tmp.clicks,'' @ [CHR 0x0A] @
        ''        tmp.video_fully_viewable_impressions,'' @ [CHR 0x0A] @
        ''        tmp.video_plays_expanded,'' @ [CHR 0x0A] @
        ''        tmp.video_watched_95_percent,'' @ [CHR 0x0A] @
        ''        tmp.video_watched_10_seconds,'' @ [CHR 0x0A] @
        ''        tmp.video_watched_25_percent,'' @ [CHR 0x0A] @
        ''        tmp.page_visit,'' @ [CHR 0x0A] @
        ''        tmp.view_content,'' @ [CHR 0x0A] @
        ''        tmp.search,'' @ [CHR 0x0A] @
        ''        tmp.add_to_cart,'' @ [CHR 0x0A] @
        ''        tmp.add_to_wishlist,'' @ [CHR 0x0A] @
        ''        tmp.purchase,'' @ [CHR 0x0A] @
        ''        tmp.lead,'' @ [CHR 0x0A] @
        ''        tmp.sign_up,'' @ [CHR 0x0A] @
        ''        tmp.custom,'' @ [CHR 0x0A] @
        ''        tmp.ad_group_id,'' @ [CHR 0x0A] @
        ''        tmp.ad_name,'' @ [CHR 0x0A] @
        ''        tmp.account_id,'' @ [CHR 0x0A] @
        ''        tmp.campaign_id,'' @ [CHR 0x0A] @
        ''        tmp.ad_group_name,'' @ [CHR 0x0A] @
        ''        tmp.campaign_name'' @ [CHR 0x0A] @
        ''            )'' @ [CHR 0x0A] @
        ''        ''"
    by (rule merge_query_remdups)
  from merge_tables_statement[OF iteration_order_remdups,
      where table_id = "''p.reddit.redditads''" and tmp_table_id = "''p.reddit.redditads_tmp''"
        and wh = merging_warehouse and c = example_client and py = Before_3_11]
  have "case rejected_table_id merging_warehouse
          (project_id example_client @ ''.'' @ format_member Before_3_11 DATASET @ ''.'' @
             format_member Before_3_11 TABLE) of
         None \<Rightarrow>
           \<exists>sch. calls (snd (merge_tables Before_3_11 remdups merging_warehouse
                                ''p.reddit.redditads_tmp'' example_client)) =
             calls example_client @
               [CreateTable (project_id example_client @ ''.'' @ format_member Before_3_11 DATASET @
                               ''.'' @ format_member Before_3_11 TABLE) sch,
                Query (merge_query remdups
                         (project_id example_client @ ''.'' @ format_member Before_3_11 DATASET @
                            ''.'' @ format_member Before_3_11 TABLE) ''p.reddit.redditads_tmp'')]
       | Some msg \<Rightarrow>
           merge_tables Before_3_11 remdups merging_warehouse ''p.reddit.redditads_tmp''
             example_client = (Inl (ValueError msg), example_client)"
    by (elim exE conjE)
  then show "\<exists>sch. calls (snd (merge_tables Before_3_11 remdups merging_warehouse
                          ''p.reddit.redditads_tmp'' example_client)) =
          [CreateTable ''p.reddit.redditads'' sch,
           Query (merge_query remdups ''p.reddit.redditads'' ''p.reddit.redditads_tmp'')]"
    by (simp add: merging_warehouse_def example_client_def)
qed

end
